theory Spec2Isabelle
  imports Main
begin

section \<open>Runes\<close>

text \<open>
  \<open>[]rune(s)\<close> decodes the bytes of a string as UTF-8 and \<open>string(runes)\<close> encodes them
  again. Both belong to the Go runtime; they are written out after package
  \<open>unicode/utf8\<close>. A byte that does not start a well-formed sequence decodes to
  \<open>RuneError\<close> (U+FFFD) and counts as one rune. Bytes and runes are natural numbers here.
\<close>

definition RuneError :: nat where
  "RuneError = 0xFFFD"

definition continuation :: "nat \<Rightarrow> bool" where
  "continuation b = (0x80 \<le> b \<and> b \<le> 0xBF)"

text \<open>The bounds on the second byte that the first byte sets (\<open>acceptRanges\<close>).\<close>

definition acceptLo :: "nat \<Rightarrow> nat" where
  "acceptLo s0 = (if s0 = 0xE0 then 0xA0 else if s0 = 0xF0 then 0x90 else 0x80)"

definition acceptHi :: "nat \<Rightarrow> nat" where
  "acceptHi s0 = (if s0 = 0xED then 0x9F else if s0 = 0xF4 then 0x8F else 0xBF)"

text \<open>\<open>utf8.DecodeRune\<close>: the first rune of a byte sequence and the number of bytes it takes.\<close>

fun DecodeRune :: "nat list \<Rightarrow> nat \<times> nat" where
  "DecodeRune [] = (RuneError, 0)"
| "DecodeRune (s0 # rest) =
     (if s0 < 0x80 then (s0, 1)
      else if s0 < 0xC2 \<or> 0xF4 < s0 then (RuneError, 1)
      else (case rest of
              [] \<Rightarrow> (RuneError, 1)
            | s1 # rest1 \<Rightarrow>
                if s1 < acceptLo s0 \<or> acceptHi s0 < s1 then (RuneError, 1)
                else if s0 < 0xE0 then ((s0 - 0xC0) * 64 + (s1 - 0x80), 2)
                else (case rest1 of
                        [] \<Rightarrow> (RuneError, 1)
                      | s2 # rest2 \<Rightarrow>
                          if \<not> continuation s2 then (RuneError, 1)
                          else if s0 < 0xF0
                          then ((s0 - 0xE0) * 4096 + (s1 - 0x80) * 64 + (s2 - 0x80), 3)
                          else (case rest2 of
                                  [] \<Rightarrow> (RuneError, 1)
                                | s3 # rest3 \<Rightarrow>
                                    if \<not> continuation s3 then (RuneError, 1)
                                    else ((s0 - 0xF0) * 262144 + (s1 - 0x80) * 4096
                                          + (s2 - 0x80) * 64 + (s3 - 0x80), 4)))))"

function decodeRunes :: "nat list \<Rightarrow> nat list" where
  "decodeRunes [] = []"
| "decodeRunes (s0 # rest) =
     fst (DecodeRune (s0 # rest))
       # decodeRunes (drop (snd (DecodeRune (s0 # rest))) (s0 # rest))"
  by pat_completeness auto
termination
proof (relation "measure length")
  show "wf (measure length)" by simp
next
  fix s0 :: nat and rest :: "nat list"
  have "0 < snd (DecodeRune (s0 # rest))" by (auto split: list.splits)
  then show "(drop (snd (DecodeRune (s0 # rest))) (s0 # rest), s0 # rest) \<in> measure length"
    by simp
qed

text \<open>\<open>utf8.EncodeRune\<close>: the bytes of one rune. A surrogate or a value past U+10FFFF is
  written as \<open>RuneError\<close>.\<close>

definition EncodeRune :: "nat \<Rightarrow> nat list" where
  "EncodeRune r =
     (if r \<le> 0x7F then [r]
      else if r \<le> 0x7FF then [0xC0 + r div 64, 0x80 + r mod 64]
      else if r > 0x10FFFF \<or> (0xD800 \<le> r \<and> r \<le> 0xDFFF) then [0xEF, 0xBF, 0xBD]
      else if r \<le> 0xFFFF
      then [0xE0 + r div 4096, 0x80 + (r div 64) mod 64, 0x80 + r mod 64]
      else [0xF0 + r div 262144, 0x80 + (r div 4096) mod 64, 0x80 + (r div 64) mod 64,
            0x80 + r mod 64])"

text \<open>The runes that a string can hold: the Unicode scalar values.\<close>

definition validRune :: "nat \<Rightarrow> bool" where
  "validRune r = (r < 0xD800 \<or> (0xE000 \<le> r \<and> r \<le> 0x10FFFF))"

definition runes_of :: "string \<Rightarrow> nat list" where
  "runes_of s = decodeRunes (map of_char s)"

definition string_of_runes :: "nat list \<Rightarrow> string" where
  "string_of_runes rs = map char_of (concat (map EncodeRune rs))"

text \<open>
  \<open>utf8.RuneStart\<close>: the byte is not a continuation byte.
\<close>

definition RuneStart :: "nat \<Rightarrow> bool" where
  "RuneStart b = (\<not> continuation b)"

text \<open>
  The backward scan of \<open>utf8.DecodeLastRune\<close>
  \<^verbatim>\<open>
    for start--; start >= lim; start-- { if RuneStart(p[start]) { break } }
    if start < 0 { start = 0 }
  \<close>
  with the third argument one more than \<open>start\<close> at the loop test; the result is \<open>start\<close>
  after the loop and the line that follows it.
\<close>

fun lastRuneStart :: "nat list \<Rightarrow> nat \<Rightarrow> nat \<Rightarrow> nat" where
  "lastRuneStart p lim 0 = 0"
| "lastRuneStart p lim (Suc start) =
     (if Suc start \<le> lim then start
      else if RuneStart (p ! start) then start
      else lastRuneStart p lim start)"

text \<open>\<open>utf8.DecodeLastRune\<close>: the last rune of a byte sequence and its width.\<close>

definition DecodeLastRune :: "nat list \<Rightarrow> nat \<times> nat" where
  "DecodeLastRune p =
     (if p = [] then (RuneError, 0)
      else if last p < 0x80 then (last p, 1)
      else (let len = length p;
                lim = len - 4;
                start = lastRuneStart p lim (len - 1)
            in if start + snd (DecodeRune (drop start p)) \<noteq> len then (RuneError, 1)
               else DecodeRune (drop start p)))"

definition DecodeRuneInString :: "string \<Rightarrow> nat \<times> nat" where
  "DecodeRuneInString s = DecodeRune (map of_char s)"

definition DecodeLastRuneInString :: "string \<Rightarrow> nat \<times> nat" where
  "DecodeLastRuneInString s = DecodeLastRune (map of_char s)"

section \<open>Go strings\<close>

text \<open>
  A Go string is a sequence of bytes, modelled as \<open>string\<close> (a list of 8-bit characters).
  The functions of package \<open>strings\<close> that the crawler calls are written out here with the
  names they have in Go.
\<close>

fun HasPrefix :: "string \<Rightarrow> string \<Rightarrow> bool" where
  "HasPrefix s [] = True"
| "HasPrefix [] (p # ps) = False"
| "HasPrefix (c # cs) (p # ps) = (c = p \<and> HasPrefix cs ps)"

text \<open>\<open>strings.Contains(s, substr)\<close>: \<open>substr\<close> occurs in \<open>s\<close> as a contiguous block.\<close>

fun Contains :: "string \<Rightarrow> string \<Rightarrow> bool" where
  "Contains [] sub = (sub = [])"
| "Contains (c # cs) sub = (HasPrefix (c # cs) sub \<or> Contains cs sub)"

text \<open>
  \<open>unicode.IsSpace\<close>: the white space of Latin-1, and past Latin-1 the code points with
  property \<open>White_Space\<close>.
\<close>

definition IsSpace :: "nat \<Rightarrow> bool" where
  "IsSpace r =
     (if r \<le> 0xFF
      then r = 0x09 \<or> r = 0x0A \<or> r = 0x0B \<or> r = 0x0C \<or> r = 0x0D \<or> r = 0x20
           \<or> r = 0x85 \<or> r = 0xA0
      else r = 0x1680 \<or> (0x2000 \<le> r \<and> r \<le> 0x200A) \<or> r = 0x2028 \<or> r = 0x2029
           \<or> r = 0x202F \<or> r = 0x205F \<or> r = 0x3000)"

text \<open>
  \<open>strings.TrimLeftFunc(s, f)\<close>: \<open>s\<close> from its first rune that does not satisfy \<open>f\<close>,
  found by walking the string rune by rune (\<open>for i, r := range s\<close>).
\<close>

function TrimLeftFunc :: "(nat \<Rightarrow> bool) \<Rightarrow> string \<Rightarrow> string" where
  "TrimLeftFunc f [] = []"
| "TrimLeftFunc f (c # cs) =
     (if f (fst (DecodeRuneInString (c # cs)))
      then TrimLeftFunc f (drop (snd (DecodeRuneInString (c # cs))) (c # cs))
      else c # cs)"
  by pat_completeness auto
termination
proof (relation "measure (\<lambda>(f, s). length s)")
  show "wf (measure (\<lambda>(f, s). length s))" by simp
next
  fix f :: "nat \<Rightarrow> bool" and c :: char and cs :: string
  have "0 < snd (DecodeRune (of_char c # map of_char cs))" by (auto split: list.splits)
  then show "((f, drop (snd (DecodeRuneInString (c # cs))) (c # cs)), (f, c # cs))
               \<in> measure (\<lambda>(f, s). length s)"
    by (simp add: DecodeRuneInString_def)
qed

text \<open>
  \<open>lastIndexFunc(s, f, false)\<close>: the index at which the last rune that does not satisfy
  \<open>f\<close> starts, walking backwards with \<open>DecodeLastRuneInString\<close>; \<open>None\<close> is \<open>-1\<close>.
\<close>

function lastIndexFunc :: "(nat \<Rightarrow> bool) \<Rightarrow> string \<Rightarrow> nat option" where
  "lastIndexFunc f s =
     (if s = [] then None
      else if \<not> f (fst (DecodeLastRuneInString s))
      then Some (length s - snd (DecodeLastRuneInString s))
      else lastIndexFunc f (take (length s - snd (DecodeLastRuneInString s)) s))"
  by pat_completeness auto
termination
proof (relation "measure (\<lambda>(f, s). length s)")
  show "wf (measure (\<lambda>(f, s). length s))" by simp
next
  fix f :: "nat \<Rightarrow> bool" and s :: string
  assume ne: "s \<noteq> []"
  have bound: "lastRuneStart p lim k \<le> k" for p lim k
    by (induction k) auto
  let ?p = "map of_char s :: nat list"
  have "lastRuneStart ?p (length ?p - 4) (length ?p - 1) < length ?p"
    using bound[of ?p "length ?p - 4" "length ?p - 1"] ne
    by (cases s) auto
  then have "0 < snd (DecodeLastRune ?p)"
    using ne by (auto simp: DecodeLastRune_def Let_def)
  then show "((f, take (length s - snd (DecodeLastRuneInString s)) s), (f, s))
               \<in> measure (\<lambda>(f, s). length s)"
    using ne by (simp add: DecodeLastRuneInString_def)
qed

declare lastIndexFunc.simps [simp del]

text \<open>
  \<open>strings.TrimRightFunc(s, f)\<close>: \<open>s\<close> up to the end of that rune, whose width is read
  forwards again.
\<close>

definition TrimRightFunc :: "(nat \<Rightarrow> bool) \<Rightarrow> string \<Rightarrow> string" where
  "TrimRightFunc f s =
     (case lastIndexFunc f s of
        None \<Rightarrow> []
      | Some i \<Rightarrow>
          if (of_char (s ! i) :: nat) \<ge> 0x80
          then take (i + snd (DecodeRuneInString (drop i s))) s
          else take (i + 1) s)"

definition TrimFunc :: "(nat \<Rightarrow> bool) \<Rightarrow> string \<Rightarrow> string" where
  "TrimFunc f s = TrimRightFunc f (TrimLeftFunc f s)"

text \<open>
  \<open>strings.TrimSpace\<close> removes the white space of Unicode from both ends of a string. It
  walks over the six ASCII white space bytes on its own, first from the left, then from the
  right, and hands over to \<open>TrimFunc\<close> or \<open>TrimRightFunc\<close> at the first byte that is not
  ASCII.
\<close>

definition asciiSpace :: "nat \<Rightarrow> bool" where
  "asciiSpace c = (c = 0x09 \<or> c = 0x0A \<or> c = 0x0B \<or> c = 0x0C \<or> c = 0x0D \<or> c = 0x20)"

text \<open>The second loop, which moves \<open>stop\<close> down from the end of the string.\<close>

function TrimSpace_stop :: "string \<Rightarrow> string" where
  "TrimSpace_stop s =
     (if s = [] then []
      else if (of_char (last s) :: nat) \<ge> 0x80 then TrimRightFunc IsSpace s
      else if asciiSpace (of_char (last s)) then TrimSpace_stop (butlast s)
      else s)"
  by pat_completeness auto
termination
  by (relation "measure length") auto

declare TrimSpace_stop.simps [simp del]

text \<open>The first loop, which moves \<open>start\<close> up, and what follows it.\<close>

fun TrimSpace :: "string \<Rightarrow> string" where
  "TrimSpace [] = []"
| "TrimSpace (c # cs) =
     (if (of_char c :: nat) \<ge> 0x80 then TrimFunc IsSpace (c # cs)
      else if asciiSpace (of_char c) then TrimSpace cs
      else TrimSpace_stop (c # cs))"

text \<open>
  \<open>strings.ToLower\<close>. A string of ASCII bytes has its capital letters replaced. Any other
  string goes through \<open>strings.Map\<close>: it is decoded, every rune is mapped by
  \<open>unicode.ToLower\<close>, and the result is encoded, an ill-formed byte becoming
  \<open>RuneError\<close>. The case table of package \<open>unicode\<close> is not written out; it is the first
  argument.
\<close>

definition toLowerChar :: "char \<Rightarrow> char" where
  "toLowerChar c =
     (let n = (of_char c :: nat) in if 65 \<le> n \<and> n \<le> 90 then char_of (n + 32) else c)"

definition Map_runes :: "(nat \<Rightarrow> nat) \<Rightarrow> string \<Rightarrow> string" where
  "Map_runes mapping s = string_of_runes (map mapping (runes_of s))"

definition ToLower :: "(nat \<Rightarrow> nat) \<Rightarrow> string \<Rightarrow> string" where
  "ToLower unicode_ToLower s =
     (if list_all (\<lambda>c. (of_char c :: nat) < 0x80) s then map toLowerChar s
      else Map_runes unicode_ToLower s)"

text \<open>
  \<open>strings.Split(s, sep)\<close> for a one-byte separator: the pieces of \<open>s\<close> between the
  separators, never an empty list (\<open>Split("", ".")\<close> is \<open>[""]\<close>).
\<close>

fun Split :: "string \<Rightarrow> char \<Rightarrow> string list" where
  "Split [] sep = [[]]"
| "Split (c # cs) sep =
     (if c = sep then [] # Split cs sep
      else (case Split cs sep of
              [] \<Rightarrow> [[c]]
            | p # ps \<Rightarrow> (c # p) # ps))"

fun Join :: "string list \<Rightarrow> string \<Rightarrow> string" where
  "Join [] sep = []"
| "Join [x] sep = x"
| "Join (x # y # ys) sep = x @ sep @ Join (y # ys) sep"

section \<open>URL-pattern pre-conditions of an execution plan item\<close>

text \<open>
  \<open>cfg.Condition\<close> carries the URL patterns of an execution plan item. Both rule engines
  walk the list with one loop variable:
  \<^verbatim>\<open>
    canProceed := true
    if len(conditions.URLPatterns) > 0 {
      for _, pattern := range conditions.URLPatterns {
        if strings.Contains(url, pattern) { canProceed = true } else { canProceed = false }
      }
    }
    return canProceed
  \<close>
\<close>

record Condition =
  URLPatterns :: "string list"

fun urlPatternLoop :: "string list \<Rightarrow> string \<Rightarrow> bool \<Rightarrow> bool" where
  "urlPatternLoop [] url canProceed = canProceed"
| "urlPatternLoop (pattern # rest) url canProceed =
     urlPatternLoop rest url (if Contains url pattern then True else False)"

definition checkScrapingPreConditions :: "Condition \<Rightarrow> string \<Rightarrow> bool" where
  "checkScrapingPreConditions conditions url =
     (let canProceed = True in
      if length (URLPatterns conditions) > 0
      then urlPatternLoop (URLPatterns conditions) url canProceed
      else canProceed)"

definition checkActionPreConditions :: "Condition \<Rightarrow> string \<Rightarrow> bool" where
  "checkActionPreConditions conditions url =
     (let canProceed = True in
      if length (URLPatterns conditions) > 0
      then urlPatternLoop (URLPatterns conditions) url canProceed
      else canProceed)"

text \<open>The reading of the pre-condition as a conjunction over all patterns.\<close>

definition matchesEveryPattern :: "string list \<Rightarrow> string \<Rightarrow> bool" where
  "matchesEveryPattern patterns url = list_all (Contains url) patterns"

section \<open>Domain scope of a link\<close>

text \<open>
  \<open>url.Parse\<close> belongs to Go's standard library. The crawler reads four things off a
  parsed URL: \<open>Scheme\<close>, \<open>Host\<close>, \<open>Hostname()\<close> and \<open>String()\<close>. The parser is a parameter
  of the functions below: \<open>None\<close> is a parse error.
\<close>

record URL =
  url_Scheme :: string
  url_Host :: string
  url_Hostname :: string
  url_String :: string

type_synonym url_Parse = "string \<Rightarrow> URL option"

definition getDomainParts :: "string list \<Rightarrow> int \<Rightarrow> string" where
  "getDomainParts parts level =
     (let partCount = length parts in
      if level = 1 \<and> partCount \<ge> 3 then Join (drop (partCount - 3) parts) ''.''
      else if level = 2 \<and> partCount \<ge> 2 then Join (drop (partCount - 2) parts) ''.''
      else if level = 3 \<and> partCount \<ge> 1 then parts ! (partCount - 1)
      else Join parts ''.'')"

definition isExternalLink :: "url_Parse \<Rightarrow> string \<Rightarrow> string \<Rightarrow> int \<Rightarrow> bool" where
  "isExternalLink parse sourceURL linkURL0 domainLevel =
     (if domainLevel = 4 then False
      else let linkURL = TrimSpace linkURL0 in
        if HasPrefix linkURL ''/'' then False
        else case parse sourceURL of
          None \<Rightarrow> False
        | Some sourceParsed \<Rightarrow>
           (case parse linkURL of
              None \<Rightarrow> False
            | Some linkParsed \<Rightarrow>
               (let srcDomainParts = Split (url_Hostname sourceParsed) CHR ''.'';
                    linkDomainParts = Split (url_Hostname linkParsed) CHR ''.''
                in if domainLevel = 0
                   then url_String sourceParsed \<noteq> url_String linkParsed
                   else getDomainParts srcDomainParts domainLevel
                          \<noteq> getDomainParts linkDomainParts domainLevel)))"

text \<open>The last \<open>k\<close> labels of a host name; all of them when it has fewer.\<close>

definition lastLabels :: "nat \<Rightarrow> string \<Rightarrow> string list" where
  "lastLabels k host = (let parts = Split host CHR ''.'' in drop (length parts - k) parts)"

section \<open>The Sources table\<close>

text \<open>
  One row of table \<open>Sources\<close> as the setup script declares it. Every column but
  \<open>source_id\<close> and \<open>url\<close> is nullable: \<open>None\<close> is SQL's \<open>NULL\<close>. A \<open>TIMESTAMP\<close> is a
  number of microseconds.
\<close>

record Source =
  src_source_id :: int
  src_created_at :: "int option"
  src_last_updated_at :: "int option"
  src_url :: string
  src_status :: "string option"
  src_last_crawled_at :: "int option"
  src_last_error :: "string option"
  src_last_error_at :: "int option"
  src_restricted :: "int option"
  src_disabled :: "bool option"
  src_flags :: "int option"
  src_config :: "string option"

text \<open>A row as \<open>INSERT INTO Sources (url)\<close> creates it: the declared column defaults.\<close>

definition insert_source :: "int \<Rightarrow> int \<Rightarrow> string \<Rightarrow> Source" where
  "insert_source now new_id u =
     \<lparr>src_source_id = new_id, src_created_at = Some now, src_last_updated_at = None,
      src_url = u, src_status = Some ''new'', src_last_crawled_at = None,
      src_last_error = None, src_last_error_at = None, src_restricted = Some 2,
      src_disabled = Some False, src_flags = Some 0, src_config = None\<rparr>"

definition interval_15_minutes :: int where
  "interval_15_minutes = 15 * 60 * 1000000"

definition interval_3_days :: int where
  "interval_3_days = 3 * 24 * 60 * 60 * 1000000"

definition interval_1_week :: int where
  "interval_1_week = 7 * 24 * 60 * 60 * 1000000"

text \<open>
  A comparison with \<open>NULL\<close> is not true, so a \<open>WHERE\<close> clause built from comparisons with
  \<open>AND\<close> and \<open>OR\<close> only selects a row exactly when the clause holds with every comparison
  on \<open>NULL\<close> read as false.
\<close>

fun sql_lt :: "int option \<Rightarrow> int \<Rightarrow> bool" where
  "sql_lt None x = False"
| "sql_lt (Some t) x = (t < x)"

text \<open>
  Trigger \<open>trg_update_sources_last_updated_before_update\<close> runs
  \<open>update_last_updated_at_column\<close> on every row an \<open>UPDATE\<close> of \<open>Sources\<close> writes.
\<close>

definition update_last_updated_at_column :: "int \<Rightarrow> Source \<Rightarrow> Source" where
  "update_last_updated_at_column now new = new\<lparr>src_last_updated_at := Some now\<rparr>"

subsection \<open>Stored procedure \<open>update_sources\<close>\<close>

text \<open>The \<open>WHERE\<close> clause of the common table expression \<open>SelectedSources\<close>.\<close>

definition SelectedSources_where :: "int \<Rightarrow> Source \<Rightarrow> bool" where
  "SelectedSources_where now s =
     (src_disabled s = Some False
      \<and> ((src_last_updated_at s = None \<or> sql_lt (src_last_updated_at s) (now - interval_3_days))
         \<or> (src_status s = Some ''error''
              \<and> sql_lt (src_last_updated_at s) (now - interval_15_minutes))
         \<or> (src_status s = Some ''completed''
              \<and> sql_lt (src_last_updated_at s) (now - interval_1_week))
         \<or> src_status s = Some ''pending'' \<or> src_status s = Some ''new''
         \<or> src_status s = None))"

text \<open>
  Eligibility in the words of the specification: not disabled, and never updated, or last
  updated more than 3 days ago, or in error and last updated more than 15 minutes ago, or
  completed and last updated more than 1 week ago, or pending, new or without status.
\<close>

definition older_than :: "int \<Rightarrow> int \<Rightarrow> Source \<Rightarrow> bool" where
  "older_than now age s =
     (case src_last_updated_at s of None \<Rightarrow> False | Some t \<Rightarrow> t < now - age)"

definition eligible :: "int \<Rightarrow> Source \<Rightarrow> bool" where
  "eligible now s =
     (src_disabled s = Some False
      \<and> (src_last_updated_at s = None
          \<or> older_than now interval_3_days s
          \<or> (src_status s = Some ''error'' \<and> older_than now interval_15_minutes s)
          \<or> (src_status s = Some ''completed'' \<and> older_than now interval_1_week s)
          \<or> src_status s \<in> {Some ''pending'', Some ''new'', None}))"

text \<open>
  \<open>LIMIT limit_val\<close>: no limit when the argument is \<open>NULL\<close>, an error when it is negative.
  The table is a list in the order the scan visits it.
\<close>

definition SelectedSources :: "int option \<Rightarrow> int \<Rightarrow> Source list \<Rightarrow> string + int list" where
  "SelectedSources limit_val now Sources =
     (let candidates = filter (SelectedSources_where now) Sources in
      case limit_val of
        None \<Rightarrow> Inr (map src_source_id candidates)
      | Some n \<Rightarrow>
          if n < 0 then Inl ''LIMIT must not be negative''
          else Inr (map src_source_id (take (nat n) candidates)))"

type_synonym claimed_row = "int \<times> string \<times> int option \<times> int option \<times> string option \<times> int option"

definition returning_row :: "Source \<Rightarrow> claimed_row" where
  "returning_row s =
     (src_source_id s, src_url s, src_restricted s, src_flags s, src_config s,
      src_last_updated_at s)"

definition set_processing :: "int \<Rightarrow> Source \<Rightarrow> Source" where
  "set_processing now s =
     update_last_updated_at_column now (s\<lparr>src_status := Some ''processing''\<rparr>)"

text \<open>
  The whole statement: the rows whose id is in \<open>SelectedSources\<close> are updated, and
  \<open>RETURNING\<close> gives the updated rows. The result is the returned rows and the new table.
\<close>

definition update_sources ::
  "int option \<Rightarrow> int \<Rightarrow> Source list \<Rightarrow> string + (claimed_row list \<times> Source list)" where
  "update_sources limit_val now Sources =
     (case SelectedSources limit_val now Sources of
        Inl e \<Rightarrow> Inl e
      | Inr ids \<Rightarrow>
          Inr (map (\<lambda>s. returning_row (set_processing now s))
                   (filter (\<lambda>s. src_source_id s \<in> set ids) Sources),
               map (\<lambda>s. if src_source_id s \<in> set ids then set_processing now s else s)
                   Sources))"

subsection \<open>\<open>updateSourceState\<close>\<close>

text \<open>
  \<open>updateSourceState(db, sourceURL, crawlError)\<close> first checks the connection and gives up
  when the check fails; then it runs one of two \<open>UPDATE\<close> statements on the rows whose
  \<open>url\<close> is \<open>sourceURL\<close>. A statement that fails writes nothing. The two possible failures
  are parameters: \<open>checkConnection\<close> and \<open>execError\<close> are \<open>None\<close> when the call succeeds.
\<close>

definition update_source_error :: "int \<Rightarrow> string \<Rightarrow> Source \<Rightarrow> Source" where
  "update_source_error now msg s =
     update_last_updated_at_column now
       (s\<lparr>src_last_crawled_at := Some now, src_status := Some ''error'',
          src_last_error := Some msg, src_last_error_at := Some now\<rparr>)"

definition update_source_completed :: "int \<Rightarrow> Source \<Rightarrow> Source" where
  "update_source_completed now s =
     update_last_updated_at_column now
       (s\<lparr>src_last_crawled_at := Some now, src_status := Some ''completed''\<rparr>)"

definition updateSourceState ::
  "string option \<Rightarrow> string option \<Rightarrow> int \<Rightarrow> Source list \<Rightarrow> string \<Rightarrow> string option
     \<Rightarrow> Source list" where
  "updateSourceState checkConnection execError now Sources sourceURL crawlError =
     (if checkConnection \<noteq> None then Sources
      else if execError \<noteq> None then Sources
      else case crawlError of
          Some msg \<Rightarrow>
            map (\<lambda>s. if src_url s = sourceURL then update_source_error now msg s else s) Sources
        | None \<Rightarrow>
            map (\<lambda>s. if src_url s = sourceURL then update_source_completed now s else s) Sources)"

subsection \<open>The dispatcher's query\<close>

text \<open>
  \<open>checkSources\<close> does not call the stored procedure. It runs a plain \<open>SELECT\<close> of \<open>url\<close>
  and \<open>restricted\<close> with this \<open>WHERE\<close> clause, on \<open>last_crawled_at\<close>, and crawls every
  source returned.
\<close>

definition checkSources_where :: "int \<Rightarrow> Source \<Rightarrow> bool" where
  "checkSources_where now s =
     ((src_last_crawled_at s = None
         \<or> sql_lt (src_last_crawled_at s) (now - interval_3_days))
      \<or> (src_status s = Some ''error''
           \<and> sql_lt (src_last_crawled_at s) (now - interval_15_minutes))
      \<or> (src_status s = Some ''completed''
           \<and> sql_lt (src_last_crawled_at s) (now - interval_1_week))
      \<or> src_status s = Some ''pending'')"

text \<open>
  \<open>ORDER BY last_crawled_at ASC\<close>: ascending, with \<open>NULL\<close> after every timestamp. SQL
  leaves the order of rows with equal keys open; here they keep the order of the table.
\<close>

fun last_crawled_at_le :: "int option \<Rightarrow> int option \<Rightarrow> bool" where
  "last_crawled_at_le a None = True"
| "last_crawled_at_le None (Some b) = False"
| "last_crawled_at_le (Some a) (Some b) = (a \<le> b)"

fun insert_by_last_crawled_at :: "Source \<Rightarrow> Source list \<Rightarrow> Source list" where
  "insert_by_last_crawled_at s [] = [s]"
| "insert_by_last_crawled_at s (t # ts) =
     (if last_crawled_at_le (src_last_crawled_at s) (src_last_crawled_at t) then s # t # ts
      else t # insert_by_last_crawled_at s ts)"

definition order_by_last_crawled_at :: "Source list \<Rightarrow> Source list" where
  "order_by_last_crawled_at rows = foldr insert_by_last_crawled_at rows []"

text \<open>
  The query: the rows it returns, and the table after it, which is the table before it.
\<close>

definition checkSources_query ::
  "int \<Rightarrow> Source list \<Rightarrow> (string \<times> int option) list \<times> Source list" where
  "checkSources_query now Sources =
     (map (\<lambda>s. (src_url s, src_restricted s))
          (order_by_last_crawled_at (filter (checkSources_where now) Sources)),
      Sources)"

section \<open>The rule engine\<close>

subsection \<open>Rules\<close>

text \<open>
  A value of Go's \<open>interface{}\<close> as the rule engine meets it: a JSON value of a rule file
  or the result of a script run in the browser. Of the numbers only the natural numbers are
  modelled; lists and objects are left out.
\<close>

datatype anyval = Nil | Str string | Boolean bool | Number nat

fun decimal :: "nat \<Rightarrow> string" where
  "decimal n = (if n < 10 then [char_of (48 + n)]
                else decimal (n div 10) @ [char_of (48 + n mod 10)])"

text \<open>\<open>fmt.Sprintf("%v", v)\<close>.\<close>

fun Sprintf_v :: "anyval \<Rightarrow> string" where
  "Sprintf_v Nil = ''<nil>''"
| "Sprintf_v (Str s) = s"
| "Sprintf_v (Boolean b) = (if b then ''true'' else ''false'')"
| "Sprintf_v (Number n) = decimal n"

text \<open>
  \<open>RetryCount\<close> and \<open>RetryDelay\<close> are of Go's type \<open>int\<close>, which has 64 bits where the
  crawler runs.
\<close>

record ErrorHandling =
  Ignore :: bool
  RetryCount :: int
  RetryDelay :: int

record WaitCondition =
  ConditionType :: string
  wc_Value :: string

text \<open>
  \<open>Conditions\<close> is a \<open>map[string]interface{}\<close>: an association list with one entry per key,
  read with \<open>map_of\<close>.
\<close>

record Selector =
  SelectorType :: string
  sel_Selector :: string
  Attribute_Name :: string
  Attribute_Value :: string
  sel_Value :: string

record ActionRule =
  ar_RuleName :: string
  ActionType :: string
  ar_Selectors :: "Selector list"
  ar_Value :: string
  ar_WaitConditions :: "WaitCondition list"
  ar_Conditions :: "(string \<times> anyval) list"
  ar_ErrorHandling :: ErrorHandling

record ScrapingRule =
  sr_RuleName :: string
  sr_WaitConditions :: "WaitCondition list"
  sr_Conditions :: "(string \<times> anyval) list"

text \<open>
  What the rule engine takes from packages that are not part of the source: the case table
  of package \<open>unicode\<close> (see \<open>ToLower\<close>), \<open>strings.EqualFold\<close>, which compares two
  strings under Unicode's case folding, \<open>StringToInt\<close> of the crawler's package \<open>common\<close>,
  and method \<open>GetValue\<close> of an action rule, of package \<open>ruleset\<close>.
\<close>

record packages =
  unicode_ToLower :: "nat \<Rightarrow> nat"
  EqualFold :: "string \<Rightarrow> string \<Rightarrow> bool"
  StringToInt :: "string \<Rightarrow> int"
  GetValue :: "ActionRule \<Rightarrow> string"

subsection \<open>The browser and the state of a crawl\<close>

text \<open>
  Everything the engine asks of the world outside it is a request, and the state of a crawl
  is the list of the requests made so far together with the counter
  \<open>ctx.Status.TotalActions\<close>. The requests are the methods of \<open>selenium.WebDriver\<close> and
  \<open>selenium.WebElement\<close> that the engine calls, \<open>TakeScreenshot\<close> (the function of that
  name in the source takes other arguments than the call in \<open>executeActionScreenshot\<close>),
  \<open>WaitForCondition\<close> and \<open>ApplyRule\<close> with the processing of what it extracted, and
  \<open>time.Sleep\<close> with its duration in nanoseconds. An element of a page is a number.
  \<open>ExecuteScript\<close> is the call without arguments, \<open>ExecuteScriptArgs\<close> the call with
  arguments.
\<close>

type_synonym WebElement = nat

datatype request =
    FindElement string string
  | ExecuteScript string
  | ExecuteScriptArgs string "string list"
  | GetAttribute WebElement string
  | Click WebElement
  | SendKeys WebElement string
  | Clear WebElement
  | Get string
  | KeyDown string
  | KeyUp string
  | Forward
  | Back
  | Refresh
  | SwitchFrame "WebElement option"
  | SwitchWindow string
  | TakeScreenshot string int
  | WaitFor string string
  | Apply string
  | Sleep int
  | SetEnv
  | DeleteNonPersistentByCID

record rstate =
  history :: "request list"
  TotalActions :: int

text \<open>
  The answer to a request may depend on all earlier requests, so a driver is a family of
  functions of the history. \<open>FindElement\<close> returns an element and an error, each of which
  may be \<open>nil\<close>; \<open>GetAttribute\<close> returns a string and an error; \<open>on_Command\<close> answers
  the calls whose only result is an error, and the call of \<open>ExecuteScript\<close> with
  arguments, of which \<open>executeActionJS\<close> reads the error only.
\<close>

record driver =
  on_FindElement :: "request list \<Rightarrow> string \<Rightarrow> string \<Rightarrow> WebElement option \<times> string option"
  on_ExecuteScript :: "request list \<Rightarrow> string \<Rightarrow> string + anyval"
  on_GetAttribute :: "request list \<Rightarrow> WebElement \<Rightarrow> string \<Rightarrow> string \<times> string option"
  on_Command :: "request list \<Rightarrow> request \<Rightarrow> string option"
  on_WaitFor :: "request list \<Rightarrow> WaitCondition \<Rightarrow> string option"
  on_Apply :: "request list \<Rightarrow> ScrapingRule \<Rightarrow> string \<times> string list"

text \<open>The rule engine's registries: JavaScript plugins and action rules, by name.\<close>

record RuleEngine =
  JSPlugins :: "string \<Rightarrow> string option"
  ActionRuleByName :: "string \<Rightarrow> ActionRule option"

definition record_request :: "request \<Rightarrow> rstate \<Rightarrow> rstate" where
  "record_request q st = st\<lparr>history := history st @ [q]\<rparr>"

definition FindElementBy ::
  "driver \<Rightarrow> string \<Rightarrow> string \<Rightarrow> rstate \<Rightarrow> (WebElement option \<times> string option) \<times> rstate" where
  "FindElementBy wd by sel st =
     (on_FindElement wd (history st) by sel, record_request (FindElement by sel) st)"

definition ExecuteScriptIn :: "driver \<Rightarrow> string \<Rightarrow> rstate \<Rightarrow> (string + anyval) \<times> rstate" where
  "ExecuteScriptIn wd code st =
     (on_ExecuteScript wd (history st) code, record_request (ExecuteScript code) st)"

definition GetAttributeOf ::
  "driver \<Rightarrow> WebElement \<Rightarrow> string \<Rightarrow> rstate \<Rightarrow> (string \<times> string option) \<times> rstate" where
  "GetAttributeOf wd elem name st =
     (on_GetAttribute wd (history st) elem name, record_request (GetAttribute elem name) st)"

definition command :: "driver \<Rightarrow> request \<Rightarrow> rstate \<Rightarrow> string option \<times> rstate" where
  "command wd q st = (on_Command wd (history st) q, record_request q st)"

text \<open>
  \<open>time.Sleep(time.Duration(n) * time.Second)\<close>. A \<open>Duration\<close> is a number of nanoseconds
  in 64 bits, an \<open>int\<close> has 64 bits too, and the product wraps around; \<open>time.Sleep\<close>
  returns at once when the duration is zero or negative.
\<close>

definition int64 :: "int \<Rightarrow> int" where
  "int64 x = (x + 2 ^ 63) mod 2 ^ 64 - 2 ^ 63"

definition Second :: int where
  "Second = 1000000000"

definition time_Sleep :: "int \<Rightarrow> rstate \<Rightarrow> rstate" where
  "time_Sleep d st = (if d \<le> 0 then st else record_request (Sleep d) st)"

definition time_Sleep_seconds :: "int \<Rightarrow> rstate \<Rightarrow> rstate" where
  "time_Sleep_seconds n st = time_Sleep (int64 (int64 n * Second)) st"

subsection \<open>Wait conditions and guard conditions of an action rule\<close>

definition executeWaitCondition ::
  "packages \<Rightarrow> RuleEngine \<Rightarrow> driver \<Rightarrow> WaitCondition \<Rightarrow> rstate
     \<Rightarrow> string option \<times> rstate" where
  "executeWaitCondition pk re wd r st =
     (let t = ToLower (unicode_ToLower pk) (TrimSpace (ConditionType r)) in
      if t = ''element'' then (None, st)
      else if t = ''delay'' then (None, st)
      else if t = ''plugin_call'' then
        (case JSPlugins re (wc_Value r) of
           None \<Rightarrow> (Some (''plugin not found: '' @ wc_Value r), st)
         | Some pluginCode \<Rightarrow>
             (case ExecuteScriptIn wd pluginCode st of
                (Inl err, st') \<Rightarrow> (Some err, st')
              | (Inr v, st') \<Rightarrow> (None, st')))
      else (Some (''wait condition not supported: '' @ ConditionType r), st))"

text \<open>
  The three blocks of \<open>checkActionConditions\<close>, each from the value of \<open>canProceed\<close> so far
  to the next one. \<open>None\<close> is a panic: a type assertion \<open>.(string)\<close> on a value that is not
  a string (a missing key gives \<open>nil\<close>).
\<close>

definition elementCondition ::
  "driver \<Rightarrow> (string \<times> anyval) list \<Rightarrow> bool \<times> rstate \<Rightarrow> (bool \<times> rstate) option" where
  "elementCondition wd conditions cs =
     (case cs of (canProceed, st) \<Rightarrow>
       (case map_of conditions ''element'' of
          None \<Rightarrow> Some (canProceed, st)
        | Some (Str sel) \<Rightarrow>
            (case FindElementBy wd ''css selector'' sel st of
               ((elem, Some err), st') \<Rightarrow> Some (False, st')
             | ((elem, None), st') \<Rightarrow> Some (canProceed, st'))
        | Some other \<Rightarrow> None))"

definition languageCondition ::
  "driver \<Rightarrow> (string \<times> anyval) list \<Rightarrow> bool \<times> rstate \<Rightarrow> (bool \<times> rstate) option" where
  "languageCondition wd conditions cs =
     (case cs of (canProceed, st) \<Rightarrow>
       (case map_of conditions ''language'' of
          None \<Rightarrow> Some (canProceed, st)
        | Some wanted \<Rightarrow>
            (case ExecuteScriptIn wd ''return document.documentElement.lang'' st of
               (Inl err, st') \<Rightarrow> Some (False, st')
             | (Inr lang, st') \<Rightarrow> Some (if lang \<noteq> wanted then False else canProceed, st'))))"

definition pluginCondition ::
  "packages \<Rightarrow> RuleEngine \<Rightarrow> driver \<Rightarrow> (string \<times> anyval) list \<Rightarrow> bool \<times> rstate
     \<Rightarrow> (bool \<times> rstate) option" where
  "pluginCondition pk re wd conditions cs =
     (case cs of (canProceed, st) \<Rightarrow>
       (case map_of conditions ''plugin_call'' of
          None \<Rightarrow> Some (canProceed, st)
        | Some present \<Rightarrow>
            (case map_of conditions ''selector'' of
               Some (Str name) \<Rightarrow>
                 (case JSPlugins re name of
                    None \<Rightarrow> Some (False, st)
                  | Some pluginCode \<Rightarrow>
                      (case ExecuteScriptIn wd pluginCode st of
                         (Inl err, st') \<Rightarrow> Some (False, st')
                       | (Inr rval, st') \<Rightarrow>
                           (let rvalStr = ToLower (unicode_ToLower pk) (TrimSpace (Sprintf_v rval)) in
                            if rvalStr = ''true'' then Some (True, st')
                            else Some (False, st'))))
             | other \<Rightarrow> None)))"

definition checkActionConditions ::
  "packages \<Rightarrow> RuleEngine \<Rightarrow> driver \<Rightarrow> (string \<times> anyval) list \<Rightarrow> rstate
     \<Rightarrow> (bool \<times> rstate) option" where
  "checkActionConditions pk re wd conditions st =
     (let canProceed = True in
      if length conditions > 0 then
        (case elementCondition wd conditions (canProceed, st) of
           None \<Rightarrow> None
         | Some cs1 \<Rightarrow>
             (case languageCondition wd conditions cs1 of
                None \<Rightarrow> None
              | Some cs2 \<Rightarrow> pluginCondition pk re wd conditions cs2))
      else Some (canProceed, st))"

text \<open>\<open>checkScrapingConditions\<close> has the first two blocks only.\<close>

definition checkScrapingConditions ::
  "driver \<Rightarrow> (string \<times> anyval) list \<Rightarrow> rstate \<Rightarrow> (bool \<times> rstate) option" where
  "checkScrapingConditions wd conditions st =
     (let canProceed = True in
      if length conditions > 0 then
        (case elementCondition wd conditions (canProceed, st) of
           None \<Rightarrow> None
         | Some cs1 \<Rightarrow> languageCondition wd conditions cs1)
      else Some (canProceed, st))"

subsection \<open>Finding the element of an action\<close>

text \<open>
  \<open>findElementByType\<close>, with the locator strategies by the names package \<open>selenium\<close>
  gives them (\<open>selenium.ByCSSSelector\<close> is \<open>"css selector"\<close>, and so on).
\<close>

definition findElementByType ::
  "packages \<Rightarrow> driver \<Rightarrow> string \<Rightarrow> string \<Rightarrow> rstate
     \<Rightarrow> (WebElement option \<times> string option) \<times> rstate" where
  "findElementByType pk wd selectorType selector st =
     (let t = ToLower (unicode_ToLower pk) (TrimSpace selectorType) in
      if t = ''css'' then FindElementBy wd ''css selector'' selector st
      else if t = ''xpath'' then FindElementBy wd ''xpath'' selector st
      else if t = ''id'' then FindElementBy wd ''id'' selector st
      else if t = ''name'' then FindElementBy wd ''name'' selector st
      else if t = ''linktext'' \<or> t = ''link_text''
      then FindElementBy wd ''link text'' selector st
      else if t = ''partiallinktext'' \<or> t = ''partial_link_text''
      then FindElementBy wd ''partial link text'' selector st
      else if t = ''tagname'' \<or> t = ''tag_name'' \<or> t = ''tag'' \<or> t = ''element''
      then FindElementBy wd ''tag name'' selector st
      else if t = ''class'' \<or> t = ''classname'' \<or> t = ''class_name''
      then FindElementBy wd ''class name'' selector st
      else ((None, Some (''unsupported selector type: '' @ selectorType)), st))"

text \<open>
  \<open>findElementBySelectorType\<close> tries the selectors in turn and stops at the first one
  that finds an element with the required attribute. The variables \<open>wdf\<close>, \<open>selector\<close>
  and \<open>err\<close> are assigned by every selector tried, and their last values are returned,
  also when no selector matched. \<open>matchL2\<close> is the test of the attribute. In the source
  \<open>matchL3\<close> ends up equal to \<open>matchL2\<close>: the call of \<open>matchValue\<close> is guarded by
  \<open>matchL3\<close>, which is \<open>false\<close> at that point.
\<close>

definition matchL2 ::
  "packages \<Rightarrow> driver \<Rightarrow> Selector \<Rightarrow> WebElement \<Rightarrow> rstate \<Rightarrow> bool \<times> rstate" where
  "matchL2 pk wd selector wdf st =
     (if TrimSpace (Attribute_Name selector) \<noteq> [] then
        (case GetAttributeOf wd wdf (TrimSpace (Attribute_Name selector)) st of
           ((attrValue, err), st') \<Rightarrow>
             (EqualFold pk (TrimSpace attrValue) (TrimSpace (Attribute_Value selector)), st'))
      else (True, st))"

fun selectorsLoop ::
  "packages \<Rightarrow> driver \<Rightarrow> Selector list \<Rightarrow> WebElement option \<times> Selector \<times> string option
     \<Rightarrow> rstate \<Rightarrow> (WebElement option \<times> Selector \<times> string option) \<times> rstate" where
  "selectorsLoop pk wd [] vars st = (vars, st)"
| "selectorsLoop pk wd (selector # rest) vars st =
     (case findElementByType pk wd (SelectorType selector) (sel_Selector selector) st of
        ((Some wdf, None), st1) \<Rightarrow>
          (case matchL2 pk wd selector wdf st1 of
             (True, st2) \<Rightarrow> ((Some wdf, selector, None), st2)
           | (False, st2) \<Rightarrow> selectorsLoop pk wd rest (Some wdf, selector, None) st2)
      | ((wdf, err), st1) \<Rightarrow> selectorsLoop pk wd rest (wdf, selector, err) st1)"

definition findElementBySelectorType ::
  "packages \<Rightarrow> driver \<Rightarrow> Selector list \<Rightarrow> rstate
     \<Rightarrow> (WebElement option \<times> Selector \<times> string option) \<times> rstate" where
  "findElementBySelectorType pk wd selectors st =
     selectorsLoop pk wd selectors
       (None,
        \<lparr>SelectorType = [], sel_Selector = [], Attribute_Name = [], Attribute_Value = [],
         sel_Value = []\<rparr>,
        None) st"

subsection \<open>The actions\<close>

text \<open>
  An action returns its error (\<open>None\<close> is \<open>nil\<close>) and the new state; the outer \<open>None\<close> is
  a panic: a method called on an element that is \<open>nil\<close>, or an index out of range.
\<close>

text \<open>\<open>_, err := (*wd).ExecuteScript(script, nil)\<close> followed by \<open>return err\<close>.\<close>

definition scriptError :: "driver \<Rightarrow> string \<Rightarrow> rstate \<Rightarrow> string option \<times> rstate" where
  "scriptError wd script st =
     (case ExecuteScriptIn wd script st of
        (Inl err, st') \<Rightarrow> (Some err, st')
      | (Inr v, st') \<Rightarrow> (None, st'))"

text \<open>
  The attribute \<open>id\<close> of an element, or its attribute \<open>name\<close> when \<open>id\<close> cannot be read:
  the lines that \<open>executeMoveToElement\<close>, \<open>executeActionClickAndHold\<close> and
  \<open>executeActionRelease\<close> have in common.
\<close>

definition idOrName :: "driver \<Rightarrow> WebElement \<Rightarrow> rstate \<Rightarrow> (string + string) \<times> rstate" where
  "idOrName wd wdf st =
     (case GetAttributeOf wd wdf ''id'' st of
        ((ident, None), st1) \<Rightarrow> (Inr ident, st1)
      | ((ident, Some err), st1) \<Rightarrow>
          (case GetAttributeOf wd wdf ''name'' st1 of
             ((ident2, None), st2) \<Rightarrow> (Inr ident2, st2)
           | ((ident2, Some err2), st2) \<Rightarrow> (Inl err2, st2)))"

text \<open>
  The scripts are raw string literals that span several lines of the source: a line feed,
  the lines with their tabs, and the tabs before the closing quote.
\<close>

definition rawLines :: "(nat \<times> string) list \<Rightarrow> nat \<Rightarrow> string" where
  "rawLines ls tabs =
     [CHR 0x0A] @ concat (map (\<lambda>(n, l). replicate n (CHR 0x09) @ l @ [CHR 0x0A]) ls)
     @ replicate tabs (CHR 0x09)"

definition getElementById :: "nat \<Rightarrow> string \<Rightarrow> nat \<times> string" where
  "getElementById n ident =
     (n, ''var elem = document.getElementById('' @ [CHR 0x27] @ ident @ [CHR 0x27] @ '');'')"

definition newMouseEvent :: "nat \<Rightarrow> string \<Rightarrow> string \<Rightarrow> (nat \<times> string) list" where
  "newMouseEvent n var event =
     [(n, ''var '' @ var @ '' = new MouseEvent('' @ [CHR 0x27] @ event @ [CHR 0x27] @ '', {''),
      (n + 1, ''bubbles: true,''),
      (n + 1, ''cancelable: true,''),
      (n + 1, ''clientX: elem.getBoundingClientRect().left,''),
      (n + 1, ''clientY: elem.getBoundingClientRect().top,''),
      (n + 1, ''view: window''),
      (n, ''});'')]"

definition moveScript :: "string \<Rightarrow> string" where
  "moveScript ident =
     rawLines ([getElementById 2 ident] @ newMouseEvent 2 ''evt'' ''mousemove''
               @ [(2, ''elem.dispatchEvent(evt);'')]) 1"

definition clickAndHoldScript :: "string \<Rightarrow> string" where
  "clickAndHoldScript ident =
     rawLines ([getElementById 2 ident] @ newMouseEvent 2 ''evt1'' ''mousemove''
               @ newMouseEvent 2 ''evt2'' ''mousedown''
               @ [(2, ''elem.dispatchEvent(evt1);''), (2, ''elem.dispatchEvent(evt2);'')]) 1"

definition releaseScript :: "string \<Rightarrow> string" where
  "releaseScript ident =
     rawLines ([getElementById 3 ident] @ newMouseEvent 3 ''evt3'' ''mouseup''
               @ [(3, ''elem.dispatchEvent(evt3);'')]) 2"

definition releaseAtPointerScript :: string where
  "releaseAtPointerScript =
     rawLines ([(3, ''const x = event.clientX;''), (3, ''const y = event.clientY;''),
                (3, ''elem = document.elementFromPoint(x, y);'')]
               @ newMouseEvent 3 ''evt3'' ''mouseup''
               @ [(3, ''elem.dispatchEvent(evt3);'')]) 2"

definition executeActionNavigateToURL ::
  "packages \<Rightarrow> driver \<Rightarrow> ActionRule \<Rightarrow> rstate \<Rightarrow> (string option \<times> rstate) option" where
  "executeActionNavigateToURL pk wd r st = Some (command wd (Get (GetValue pk r)) st)"

definition executeActionClickAndHold ::
  "packages \<Rightarrow> driver \<Rightarrow> ActionRule \<Rightarrow> rstate \<Rightarrow> (string option \<times> rstate) option" where
  "executeActionClickAndHold pk wd r st =
     (case findElementBySelectorType pk wd (ar_Selectors r) st of
        ((wdf, selector, Some err), st1) \<Rightarrow> Some (Some err, st1)
      | ((None, selector, None), st1) \<Rightarrow> None
      | ((Some wdf, selector, None), st1) \<Rightarrow>
          (case idOrName wd wdf st1 of
             (Inl err, st2) \<Rightarrow> Some (Some err, st2)
           | (Inr ident, st2) \<Rightarrow> Some (scriptError wd (clickAndHoldScript ident) st2)))"

text \<open>
  \<open>executeActionRelease\<close> looks for the element when the rule has selectors
  (\<open>r.Selectors != nil\<close>; on an empty list the lookup does nothing and finds nothing) and
  drops the error of the lookup.
\<close>

definition executeActionRelease ::
  "packages \<Rightarrow> driver \<Rightarrow> ActionRule \<Rightarrow> rstate \<Rightarrow> (string option \<times> rstate) option" where
  "executeActionRelease pk wd r st =
     (case (if ar_Selectors r \<noteq> [] then
              (case findElementBySelectorType pk wd (ar_Selectors r) st of
                 ((wdf, selector, err), st') \<Rightarrow> (wdf, st'))
            else (None, st)) of
        (Some element, st1) \<Rightarrow>
          (case idOrName wd element st1 of
             (Inl err, st2) \<Rightarrow> Some (Some err, st2)
           | (Inr ident, st2) \<Rightarrow> Some (scriptError wd (releaseScript ident) st2))
      | (None, st1) \<Rightarrow> Some (scriptError wd releaseAtPointerScript st1))"

definition executeActionClear ::
  "packages \<Rightarrow> driver \<Rightarrow> ActionRule \<Rightarrow> rstate \<Rightarrow> (string option \<times> rstate) option" where
  "executeActionClear pk wd r st =
     (case findElementBySelectorType pk wd (ar_Selectors r) st of
        ((wdf, selector, Some err), st1) \<Rightarrow> Some (Some err, st1)
      | ((None, selector, None), st1) \<Rightarrow> None
      | ((Some wdf, selector, None), st1) \<Rightarrow> Some (command wd (Clear wdf) st1))"

text \<open>
  \<open>executeActionScreenshot\<close>: the value of the rule is \<open>maxHeight,fileName\<close> or a file
  name alone.
\<close>

definition executeActionScreenshot ::
  "packages \<Rightarrow> driver \<Rightarrow> ActionRule \<Rightarrow> rstate \<Rightarrow> (string option \<times> rstate) option" where
  "executeActionScreenshot pk wd r st =
     (let val = GetValue pk r in
      case (if Contains val '','' then
              (case Split val (CHR '','') of
                 hVal # fVal # further \<Rightarrow> Some (hVal, fVal)
               | other \<Rightarrow> None)
            else Some (''0'', val)) of
        None \<Rightarrow> None
      | Some (hVal, fVal) \<Rightarrow>
          Some (command wd (TakeScreenshot fVal (StringToInt pk hVal)) st))"

definition executeActionKeyDown ::
  "driver \<Rightarrow> ActionRule \<Rightarrow> rstate \<Rightarrow> (string option \<times> rstate) option" where
  "executeActionKeyDown wd r st = Some (command wd (KeyDown (ar_Value r)) st)"

definition executeActionKeyUp ::
  "driver \<Rightarrow> ActionRule \<Rightarrow> rstate \<Rightarrow> (string option \<times> rstate) option" where
  "executeActionKeyUp wd r st = Some (command wd (KeyUp (ar_Value r)) st)"

definition executeMoveToElement ::
  "packages \<Rightarrow> driver \<Rightarrow> ActionRule \<Rightarrow> rstate \<Rightarrow> (string option \<times> rstate) option" where
  "executeMoveToElement pk wd r st =
     (case findElementBySelectorType pk wd (ar_Selectors r) st of
        ((wdf, selector, Some err), st1) \<Rightarrow> Some (Some err, st1)
      | ((None, selector, None), st1) \<Rightarrow> None
      | ((Some wdf, selector, None), st1) \<Rightarrow>
          (case idOrName wd wdf st1 of
             (Inl err, st2) \<Rightarrow> Some (Some err, st2)
           | (Inr ident, st2) \<Rightarrow> Some (scriptError wd (moveScript ident) st2)))"

definition executeActionMouseHover ::
  "packages \<Rightarrow> driver \<Rightarrow> ActionRule \<Rightarrow> rstate \<Rightarrow> (string option \<times> rstate) option" where
  "executeActionMouseHover pk wd r st = executeMoveToElement pk wd r st"

definition executeActionForward :: "driver \<Rightarrow> rstate \<Rightarrow> (string option \<times> rstate) option" where
  "executeActionForward wd st = Some (command wd Forward st)"

definition executeActionBack :: "driver \<Rightarrow> rstate \<Rightarrow> (string option \<times> rstate) option" where
  "executeActionBack wd st = Some (command wd Back st)"

definition executeActionRefresh :: "driver \<Rightarrow> rstate \<Rightarrow> (string option \<times> rstate) option" where
  "executeActionRefresh wd st = Some (command wd Refresh st)"

definition executeActionSwitchFrame ::
  "packages \<Rightarrow> driver \<Rightarrow> ActionRule \<Rightarrow> rstate \<Rightarrow> (string option \<times> rstate) option" where
  "executeActionSwitchFrame pk wd r st =
     (case findElementBySelectorType pk wd (ar_Selectors r) st of
        ((wdf, selector, Some err), st1) \<Rightarrow> Some (Some err, st1)
      | ((wdf, selector, None), st1) \<Rightarrow> Some (command wd (SwitchFrame wdf) st1))"

definition executeActionSwitchWindow ::
  "driver \<Rightarrow> ActionRule \<Rightarrow> rstate \<Rightarrow> (string option \<times> rstate) option" where
  "executeActionSwitchWindow wd r st = Some (command wd (SwitchWindow (ar_Value r)) st)"

text \<open>\<open>executeActionScrollToElement\<close> is left to be implemented: it returns \<open>nil\<close>.\<close>

definition executeActionScrollToElement ::
  "driver \<Rightarrow> ActionRule \<Rightarrow> rstate \<Rightarrow> (string option \<times> rstate) option" where
  "executeActionScrollToElement wd r st = Some (None, st)"

text \<open>\<open>fmt.Sprintf("%d", y)\<close>.\<close>

definition Sprintf_d :: "int \<Rightarrow> string" where
  "Sprintf_d y = (if y < 0 then ''-'' @ decimal (nat (- y)) else decimal (nat y))"

definition executeActionScrollByAmount ::
  "packages \<Rightarrow> driver \<Rightarrow> ActionRule \<Rightarrow> rstate \<Rightarrow> (string option \<times> rstate) option" where
  "executeActionScrollByAmount pk wd r st =
     (let y = StringToInt pk (ar_Value r);
          scrollScript = ''window.scrollTo(0, '' @ Sprintf_d y @ '');''
      in Some (scriptError wd scrollScript st))"

text \<open>
  \<open>executeActionClick\<close>: when the lookup fails the error is dropped, and when there is no
  element nothing is clicked and \<open>nil\<close> is returned.
\<close>

definition executeActionClick ::
  "packages \<Rightarrow> driver \<Rightarrow> ActionRule \<Rightarrow> rstate \<Rightarrow> (string option \<times> rstate) option" where
  "executeActionClick pk wd r st =
     (case findElementBySelectorType pk wd (ar_Selectors r) st of
        ((Some wdf, selector, err), st1) \<Rightarrow> Some (command wd (Click wdf) st1)
      | ((None, selector, err), st1) \<Rightarrow> Some (None, st1))"

definition executeActionScroll ::
  "driver \<Rightarrow> ActionRule \<Rightarrow> rstate \<Rightarrow> (string option \<times> rstate) option" where
  "executeActionScroll wd r st =
     (let attribute = (if ar_Value r = [] then ''document.body.scrollHeight'' else ar_Value r);
          script = ''window.scrollTo(0, '' @ attribute @ '')''
      in Some (scriptError wd script st))"

text \<open>
  \<open>executeActionJS\<close> runs the plugin of every selector of type \<open>plugin_call\<close>, with the
  value of the rule as its argument.
\<close>

fun pluginCallsLoop ::
  "RuleEngine \<Rightarrow> driver \<Rightarrow> ActionRule \<Rightarrow> Selector list \<Rightarrow> rstate
     \<Rightarrow> string option \<times> rstate" where
  "pluginCallsLoop re wd r [] st = (None, st)"
| "pluginCallsLoop re wd r (selector # rest) st =
     (if SelectorType selector = ''plugin_call'' then
        (case JSPlugins re (sel_Selector selector) of
           None \<Rightarrow> (Some (''plugin not found: '' @ sel_Selector selector), st)
         | Some plugin \<Rightarrow>
             (case command wd (ExecuteScriptArgs plugin [ar_Value r]) st of
                (Some err, st') \<Rightarrow> (Some err, st')
              | (None, st') \<Rightarrow> pluginCallsLoop re wd r rest st'))
      else pluginCallsLoop re wd r rest st)"

definition executeActionJS ::
  "RuleEngine \<Rightarrow> driver \<Rightarrow> ActionRule \<Rightarrow> rstate \<Rightarrow> (string option \<times> rstate) option" where
  "executeActionJS re wd r st = Some (pluginCallsLoop re wd r (ar_Selectors r) st)"

text \<open>
  \<open>executeActionInput\<close>: the keys sent are the value of the selector that found the
  element; as in \<open>executeActionClick\<close> a failed lookup is no error.
\<close>

definition executeActionInput ::
  "packages \<Rightarrow> driver \<Rightarrow> ActionRule \<Rightarrow> rstate \<Rightarrow> (string option \<times> rstate) option" where
  "executeActionInput pk wd r st =
     (case findElementBySelectorType pk wd (ar_Selectors r) st of
        ((Some wdf, selector, err), st1) \<Rightarrow>
          Some (command wd (SendKeys wdf (sel_Value selector)) st1)
      | ((None, selector, err), st1) \<Rightarrow> Some (None, st1))"


subsection \<open>Executing action rules\<close>

text \<open>The \<open>switch\<close> of \<open>executeActionRule\<close> on the action type.\<close>

definition dispatchAction ::
  "packages \<Rightarrow> RuleEngine \<Rightarrow> driver \<Rightarrow> ActionRule \<Rightarrow> rstate
     \<Rightarrow> (string option \<times> rstate) option" where
  "dispatchAction pk re wd r st =
     (let t = ToLower (unicode_ToLower pk) (TrimSpace (ActionType r)) in
      if t = ''click'' then executeActionClick pk wd r st
      else if t = ''scroll'' then executeActionScroll wd r st
      else if t = ''input_text'' then executeActionInput pk wd r st
      else if t = ''clear'' then executeActionClear pk wd r st
      else if t = ''custom'' then executeActionJS re wd r st
      else if t = ''take_screenshot'' then executeActionScreenshot pk wd r st
      else if t = ''key_down'' then executeActionKeyDown wd r st
      else if t = ''key_up'' then executeActionKeyUp wd r st
      else if t = ''mouse_hover'' then executeActionMouseHover pk wd r st
      else if t = ''forward'' then executeActionForward wd st
      else if t = ''back'' then executeActionBack wd st
      else if t = ''refresh'' then executeActionRefresh wd st
      else if t = ''switch_to_frame'' then executeActionSwitchFrame pk wd r st
      else if t = ''switch_to_window'' then executeActionSwitchWindow wd r st
      else if t = ''scroll_to_element'' then executeActionScrollToElement wd r st
      else if t = ''scroll_by_amount'' then executeActionScrollByAmount pk wd r st
      else if t = ''click_and_hold'' then executeActionClickAndHold pk wd r st
      else if t = ''release'' then executeActionRelease pk wd r st
      else if t = ''navigate_to_url'' then executeActionNavigateToURL pk wd r st
      else Some (Some (''action type not supported: '' @ ActionType r), st))"

fun waitConditionsLoop ::
  "packages \<Rightarrow> RuleEngine \<Rightarrow> driver \<Rightarrow> WaitCondition list \<Rightarrow> rstate
     \<Rightarrow> string option \<times> rstate" where
  "waitConditionsLoop pk re wd [] st = (None, st)"
| "waitConditionsLoop pk re wd (wc # rest) st =
     (case executeWaitCondition pk re wd wc st of
        (Some err, st') \<Rightarrow> (Some err, st')
      | (None, st') \<Rightarrow> waitConditionsLoop pk re wd rest st')"

text \<open>
  \<open>executeActionRule\<close>: the wait conditions, then the guard, then the action. The result
  is the error (\<open>None\<close> is \<open>nil\<close>) and the new state; the outer \<open>None\<close> is a panic.
\<close>

definition executeActionRule ::
  "packages \<Rightarrow> RuleEngine \<Rightarrow> driver \<Rightarrow> ActionRule \<Rightarrow> rstate
     \<Rightarrow> (string option \<times> rstate) option" where
  "executeActionRule pk re wd r st =
     (case waitConditionsLoop pk re wd (ar_WaitConditions r) st of
        (Some err, st1) \<Rightarrow> Some (Some err, st1)
      | (None, st1) \<Rightarrow>
          if length (ar_Conditions r) = 0 then dispatchAction pk re wd r st1
          else (case checkActionConditions pk re wd (ar_Conditions r) st1 of
                  None \<Rightarrow> None
                | Some (canProceed, st2) \<Rightarrow>
                    if canProceed then dispatchAction pk re wd r st2
                    else Some (None, st2)))"

text \<open>
  The retry loop of \<open>executeRule\<close> and of \<open>executeActionRuleByName\<close>:
  \<^verbatim>\<open>
    for i := 0; i < r.ErrorHandling.RetryCount; i++ {
      if r.ErrorHandling.RetryDelay > 0 {
        time.Sleep(time.Duration(r.ErrorHandling.RetryDelay) * time.Second)
      }
      err = executeActionRule(ctx, r, wd)
      if err == nil { break }
    }
  \<close>
  The first argument is the number of iterations left.
\<close>

definition sleepBeforeRetry :: "ActionRule \<Rightarrow> rstate \<Rightarrow> rstate" where
  "sleepBeforeRetry r st =
     (if RetryDelay (ar_ErrorHandling r) > 0
      then time_Sleep_seconds (RetryDelay (ar_ErrorHandling r)) st
      else st)"





text \<open>
  The attempts of one rule, numbered from 0: \<open>beforeAttempt j\<close> is the state in which
  attempt \<open>j\<close> starts when every earlier attempt has run, with the pause that precedes each
  attempt but the first; \<open>attempt j\<close> is the outcome of attempt \<open>j\<close>.
\<close>

fun beforeAttempt ::
  "packages \<Rightarrow> RuleEngine \<Rightarrow> driver \<Rightarrow> ActionRule \<Rightarrow> rstate \<Rightarrow> nat \<Rightarrow> rstate option" where
  "beforeAttempt pk re wd r st 0 = Some st"
| "beforeAttempt pk re wd r st (Suc j) =
     (case beforeAttempt pk re wd r st j of
        None \<Rightarrow> None
      | Some stj \<Rightarrow>
          (case executeActionRule pk re wd r stj of
             None \<Rightarrow> None
           | Some (e, st') \<Rightarrow> Some (sleepBeforeRetry r st')))"

definition attempt ::
  "packages \<Rightarrow> RuleEngine \<Rightarrow> driver \<Rightarrow> ActionRule \<Rightarrow> rstate \<Rightarrow> nat
     \<Rightarrow> (string option \<times> rstate) option" where
  "attempt pk re wd r st j =
     (case beforeAttempt pk re wd r st j of
        None \<Rightarrow> None
      | Some stj \<Rightarrow> executeActionRule pk re wd r stj)"

subsection \<open>Executing scraping rules\<close>

fun HasSuffix :: "string \<Rightarrow> string \<Rightarrow> bool" where
  "HasSuffix s suffix = HasPrefix (rev s) (rev suffix)"

text \<open>\<open>addScrapedDataToDocument\<close>, with the document passed and returned.\<close>

definition addScrapedDataToDocument :: "string \<Rightarrow> string \<Rightarrow> string" where
  "addScrapedDataToDocument scrapedDataDoc newScrapedData =
     (if scrapedDataDoc = '''' then newScrapedData
      else scrapedDataDoc @ '','' @ newScrapedData)"

fun executeWaitConditions ::
  "driver \<Rightarrow> WaitCondition list \<Rightarrow> rstate \<Rightarrow> string option \<times> rstate" where
  "executeWaitConditions wd [] st = (None, st)"
| "executeWaitConditions wd (wc # rest) st =
     (case on_WaitFor wd (history st) wc of
        Some err \<Rightarrow>
          (Some (''executing wait condition: '' @ err),
           record_request (WaitFor (ConditionType wc) (wc_Value wc)) st)
      | None \<Rightarrow>
          executeWaitConditions wd rest
            (record_request (WaitFor (ConditionType wc) (wc_Value wc)) st))"

definition shouldExecuteScrapingRule ::
  "driver \<Rightarrow> ScrapingRule \<Rightarrow> rstate \<Rightarrow> (bool \<times> rstate) option" where
  "shouldExecuteScrapingRule wd r st =
     (if length (sr_Conditions r) = 0 then Some (True, st)
      else checkScrapingConditions wd (sr_Conditions r) st)"

text \<open>
  \<open>executeScrapingRule\<close>. The driver's answer to \<open>Apply\<close> is the JSON text left after
  \<open>ApplyRule\<close>, the cleaning, \<open>json.Marshal\<close> and the post-processing steps, with the
  errors collected on the way.
\<close>

definition executeScrapingRule ::
  "driver \<Rightarrow> ScrapingRule \<Rightarrow> rstate \<Rightarrow> ((string \<times> string option) \<times> rstate) option" where
  "executeScrapingRule wd r st =
     (case (if length (sr_WaitConditions r) \<noteq> 0
            then executeWaitConditions wd (sr_WaitConditions r) st
            else (None, st)) of
        (Some err, st1) \<Rightarrow> Some (('''', Some (''executing wait conditions: '' @ err)), st1)
      | (None, st1) \<Rightarrow>
          (case shouldExecuteScrapingRule wd r st1 of
             None \<Rightarrow> None
           | Some (False, st2) \<Rightarrow> Some (('''', None), st2)
           | Some (True, st2) \<Rightarrow>
               (case on_Apply wd (history st2) r of (jsonData, errList) \<Rightarrow>
                 (let st3 = record_request (Apply (sr_RuleName r)) st2;
                      rval = TrimSpace jsonData;
                      jsonDocument =
                        (if HasPrefix rval ''{'' \<and> HasSuffix rval ''}''
                         then butlast (tl rval) else rval)
                  in if length errList > 0
                     then Some ((jsonDocument,
                                 Some (''executing scraping rule: ''
                                       @ concat (map (\<lambda>e. e @ [CHR 0x0A]) errList))), st3)
                     else Some ((jsonDocument, None), st3)))))"

text \<open>
  The loop of \<open>executeScrapingRulesInRuleset\<close> over the enabled scraping rules. The result
  is the document and the error returned, or \<open>None\<close> when the loop ran to its end.
\<close>

fun rulesetLoop ::
  "driver \<Rightarrow> ScrapingRule list \<Rightarrow> string \<Rightarrow> rstate
     \<Rightarrow> ((string \<times> string) option \<times> string \<times> rstate) option" where
  "rulesetLoop wd [] scrapedDataDoc st = Some (None, scrapedDataDoc, st)"
| "rulesetLoop wd (r # rest) scrapedDataDoc st =
     (case executeScrapingRule wd r st of
        None \<Rightarrow> None
      | Some ((scrapedData, Some err), st') \<Rightarrow>
          if Contains err ''Critical'' then Some (Some ('''', err), scrapedDataDoc, st')
          else rulesetLoop wd rest (addScrapedDataToDocument scrapedDataDoc scrapedData) st'
      | Some ((scrapedData, None), st') \<Rightarrow>
          rulesetLoop wd rest (addScrapedDataToDocument scrapedDataDoc scrapedData) st')"

definition executeScrapingRulesInRuleset ::
  "driver \<Rightarrow> ScrapingRule list \<Rightarrow> rstate \<Rightarrow> ((string \<times> string option) \<times> rstate) option" where
  "executeScrapingRulesInRuleset wd enabledScrapingRules st =
     (case rulesetLoop wd enabledScrapingRules '''' (record_request SetEnv st) of
        None \<Rightarrow> None
      | Some (Some (doc, err), scrapedDataDoc, st') \<Rightarrow> Some ((doc, Some err), st')
      | Some (None, scrapedDataDoc, st') \<Rightarrow>
          Some ((scrapedDataDoc, None), record_request DeleteNonPersistentByCID st'))"

text \<open>
  The loop of \<open>executeScrapingRulesInRuleGroup\<close>: \<open>err\<close> is assigned by every rule and
  read after the loop only.
\<close>

fun ruleGroupLoop ::
  "driver \<Rightarrow> ScrapingRule list \<Rightarrow> string \<Rightarrow> string option \<Rightarrow> rstate
     \<Rightarrow> (string \<times> string option \<times> rstate) option" where
  "ruleGroupLoop wd [] scrapedDataDoc err st = Some (scrapedDataDoc, err, st)"
| "ruleGroupLoop wd (r # rest) scrapedDataDoc err st =
     (case executeScrapingRule wd r st of
        None \<Rightarrow> None
      | Some ((scrapedData, err'), st') \<Rightarrow>
          ruleGroupLoop wd rest (addScrapedDataToDocument scrapedDataDoc scrapedData) err' st')"

definition executeScrapingRulesInRuleGroup ::
  "driver \<Rightarrow> ScrapingRule list \<Rightarrow> rstate \<Rightarrow> ((string \<times> string option) \<times> rstate) option" where
  "executeScrapingRulesInRuleGroup wd scrapingRules st =
     (case ruleGroupLoop wd scrapingRules '''' None (record_request SetEnv st) of
        None \<Rightarrow> None
      | Some (scrapedDataDoc, err, st') \<Rightarrow>
          Some ((scrapedDataDoc, err), record_request DeleteNonPersistentByCID st'))"

section \<open>\<open>strLeft\<close>\<close>

definition strLeft :: "string \<Rightarrow> int \<Rightarrow> string" where
  "strLeft s x =
     (let runes = runes_of s in
      if x < 0 \<or> x > int (length runes) then s
      else string_of_runes (take (nat x) runes))"

section \<open>Indexing a page\<close>

subsection \<open>Tables\<close>

record PageInfo =
  Title :: string
  Summary :: string
  BodyText :: string
  MetaTags :: "(string \<times> string) list"
  DetectedLang :: string
  DetectedType :: string
  sourceID :: int

record SearchIndexRow =
  si_index_id :: int
  si_last_updated_at :: int
  si_page_url :: string
  si_title :: string
  si_summary :: string
  si_snapshot_url :: "string option"
  si_detected_type :: string
  si_detected_lang :: string
  si_content :: string

text \<open>
  The four tables that \<open>indexPage\<close> writes through its transaction, as lists of rows:
  \<open>SourceSearchIndex\<close> holds pairs (source id, index id), \<open>MetaTags\<close> triples (index id,
  name, content), \<open>KeywordIndex\<close> pairs (keyword id, index id).
\<close>

record tables =
  SearchIndex :: "SearchIndexRow list"
  SourceSearchIndex :: "(int \<times> int) list"
  MetaTagsTable :: "(int \<times> string \<times> string) list"
  KeywordIndex :: "(int \<times> int) list"

text \<open>
  The database: the committed state of the four tables, the committed table \<open>Keywords\<close> of
  pairs (keyword id, keyword), and the two sequences behind the \<open>SERIAL\<close> keys, which no
  rollback restores.
\<close>

record database =
  committed :: tables
  Keywords :: "(int \<times> string) list"
  searchindex_index_id_seq :: int
  keywords_keyword_id_seq :: int

text \<open>
  Any call to the database can fail. What fails is a parameter of the model: for every call
  of \<open>indexPage\<close> the error it returns, \<open>None\<close> when it succeeds. Meta tags and keywords are
  numbered by their position, the attempts on one keyword from 0.
\<close>

record faults =
  at_CheckConnection :: "string option"
  at_Begin :: "string option"
  at_SearchIndex :: "string option"
  at_SourceSearchIndex :: "string option"
  at_MetaTag :: "nat \<Rightarrow> string option"
  at_KeywordCheckConnection :: "nat \<Rightarrow> string option"
  at_Keyword :: "nat \<Rightarrow> nat \<Rightarrow> string option"
  at_KeywordIndex :: "nat \<Rightarrow> string option"
  at_Commit :: "string option"

subsection \<open>\<open>insertOrUpdateSearchIndex\<close>\<close>

text \<open>
  The upsert on \<open>page_url\<close>: an existing row keeps its id and its snapshot and takes the new
  title, summary, content, language and type; otherwise a row with the next id of the
  sequence is added. The sequence advances in both cases. The result is the id of the row.
\<close>

definition upsertSearchIndex ::
  "int \<Rightarrow> string \<Rightarrow> PageInfo \<Rightarrow> database \<times> tables \<Rightarrow> int \<times> database \<times> tables" where
  "upsertSearchIndex now u pageInfo dt =
     (case dt of (db, tx) \<Rightarrow>
       (let new_id = searchindex_index_id_seq db + 1;
            db' = db\<lparr>searchindex_index_id_seq := new_id\<rparr>;
            write = (\<lambda>row. row\<lparr>si_title := Title pageInfo, si_summary := Summary pageInfo,
                                 si_content := BodyText pageInfo,
                                 si_detected_lang := strLeft (DetectedLang pageInfo) 8,
                                 si_detected_type := strLeft (DetectedType pageInfo) 8,
                                 si_last_updated_at := now\<rparr>)
        in case filter (\<lambda>row. si_page_url row = u) (SearchIndex tx) of
             [] \<Rightarrow>
               (new_id, db',
                tx\<lparr>SearchIndex := SearchIndex tx @
                     [\<lparr>si_index_id = new_id, si_last_updated_at = now, si_page_url = u,
                       si_title = Title pageInfo, si_summary = Summary pageInfo,
                       si_snapshot_url = None,
                       si_detected_type = strLeft (DetectedType pageInfo) 8,
                       si_detected_lang = strLeft (DetectedLang pageInfo) 8,
                       si_content = BodyText pageInfo\<rparr>]\<rparr>)
           | old # others \<Rightarrow>
               (si_index_id old, db',
                tx\<lparr>SearchIndex :=
                     map (\<lambda>row. if si_page_url row = u then write row else row)
                         (SearchIndex tx)\<rparr>)))"

definition insertSourceSearchIndex :: "int \<Rightarrow> int \<Rightarrow> tables \<Rightarrow> tables" where
  "insertSourceSearchIndex source_id index_id tx =
     (if (source_id, index_id) \<in> set (SourceSearchIndex tx) then tx
      else tx\<lparr>SourceSearchIndex := SourceSearchIndex tx @ [(source_id, index_id)]\<rparr>)"

definition insertOrUpdateSearchIndex ::
  "faults \<Rightarrow> int \<Rightarrow> string \<Rightarrow> PageInfo \<Rightarrow> database \<times> tables
     \<Rightarrow> (string + int) \<times> database \<times> tables" where
  "insertOrUpdateSearchIndex f now u pageInfo dt =
     (case at_SearchIndex f of
        Some err \<Rightarrow> (Inl err, dt)
      | None \<Rightarrow>
          (case upsertSearchIndex now u pageInfo dt of (indexID, db1, tx1) \<Rightarrow>
            (case at_SourceSearchIndex f of
               Some err \<Rightarrow> (Inl err, db1, tx1)
             | None \<Rightarrow>
                 (Inr indexID, db1, insertSourceSearchIndex (sourceID pageInfo) indexID tx1))))"

subsection \<open>\<open>insertMetaTags\<close>\<close>

text \<open>The loop over the map of meta tags, in the order the iteration visits them.\<close>

fun insertMetaTagsFrom ::
  "faults \<Rightarrow> nat \<Rightarrow> int \<Rightarrow> (string \<times> string) list \<Rightarrow> tables \<Rightarrow> string option \<times> tables" where
  "insertMetaTagsFrom f i indexID [] tx = (None, tx)"
| "insertMetaTagsFrom f i indexID ((name, content) # rest) tx =
     (case at_MetaTag f i of
        Some err \<Rightarrow> (Some err, tx)
      | None \<Rightarrow>
          insertMetaTagsFrom f (Suc i) indexID rest
            (tx\<lparr>MetaTagsTable := MetaTagsTable tx @ [(indexID, name, content)]\<rparr>))"

definition insertMetaTags ::
  "faults \<Rightarrow> int \<Rightarrow> (string \<times> string) list \<Rightarrow> tables \<Rightarrow> string option \<times> tables" where
  "insertMetaTags f indexID metaTags tx = insertMetaTagsFrom f 0 indexID metaTags tx"

subsection \<open>\<open>insertKeywordWithRetries\<close>\<close>

text \<open>
  The upsert of one keyword, run on the database handle and not on the transaction: it is
  committed when it returns. An existing keyword keeps its id; the sequence advances in
  both cases.
\<close>

definition upsertKeyword :: "string \<Rightarrow> database \<Rightarrow> int \<times> database" where
  "upsertKeyword keyword db =
     (let new_id = keywords_keyword_id_seq db + 1;
          db' = db\<lparr>keywords_keyword_id_seq := new_id\<rparr>
      in case filter (\<lambda>row. snd row = keyword) (Keywords db) of
           [] \<Rightarrow> (new_id, db'\<lparr>Keywords := Keywords db @ [(new_id, keyword)]\<rparr>)
         | old # others \<Rightarrow> (fst old, db'))"

definition maxRetries :: nat where
  "maxRetries = 3"

text \<open>
  The loop \<open>for i := 0; i < maxRetries; i++\<close>; the first argument counts the iterations
  left, \<open>i\<close> is the loop variable, \<open>k\<close> the position of the keyword. Every
  \<open>time.Sleep\<close> is recorded with its length in milliseconds.
\<close>

fun keywordRetryLoop ::
  "nat \<Rightarrow> faults \<Rightarrow> nat \<Rightarrow> nat \<Rightarrow> string \<Rightarrow> database \<times> int list
     \<Rightarrow> (string + int) \<times> database \<times> int list" where
  "keywordRetryLoop 0 f k i keyword (db, sleeps) =
     (Inl (''failed to insert keyword after retries: '' @ keyword), db, sleeps)"
| "keywordRetryLoop (Suc n) f k i keyword (db, sleeps) =
     (case at_Keyword f k i of
        Some err \<Rightarrow>
          if Contains err ''deadlock detected'' then
            if i = maxRetries - 1 then (Inl err, db, sleeps)
            else keywordRetryLoop n f k (Suc i) keyword (db, sleeps @ [int i * 100])
          else (Inl err, db, sleeps)
      | None \<Rightarrow>
          (case upsertKeyword keyword db of (keywordID, db') \<Rightarrow> (Inr keywordID, db', sleeps)))"

definition insertKeywordWithRetries ::
  "faults \<Rightarrow> nat \<Rightarrow> string \<Rightarrow> database \<times> int list
     \<Rightarrow> (string + int) \<times> database \<times> int list" where
  "insertKeywordWithRetries f k keyword ds =
     (case at_KeywordCheckConnection f k of
        Some err \<Rightarrow> (Inl err, ds)
      | None \<Rightarrow> keywordRetryLoop maxRetries f k 0 keyword ds)"

subsection \<open>\<open>insertKeywords\<close> and \<open>indexPage\<close>\<close>

fun insertKeywordsFrom ::
  "faults \<Rightarrow> nat \<Rightarrow> int \<Rightarrow> string list \<Rightarrow> (database \<times> int list) \<times> tables
     \<Rightarrow> string option \<times> (database \<times> int list) \<times> tables" where
  "insertKeywordsFrom f k indexID [] st = (None, st)"
| "insertKeywordsFrom f k indexID (keyword # rest) (ds, tx) =
     (case insertKeywordWithRetries f k keyword ds of
        (Inl err, ds') \<Rightarrow> (Some err, ds', tx)
      | (Inr keywordID, ds') \<Rightarrow>
          (case at_KeywordIndex f k of
             Some err \<Rightarrow> (Some err, ds', tx)
           | None \<Rightarrow>
               insertKeywordsFrom f (Suc k) indexID rest
                 (ds', tx\<lparr>KeywordIndex := KeywordIndex tx @ [(keywordID, indexID)]\<rparr>)))"

text \<open>
  \<open>extractKeywords\<close> is not part of the sources at hand; the list of keywords it returns
  for the page is a parameter.
\<close>

definition insertKeywords ::
  "faults \<Rightarrow> int \<Rightarrow> string list \<Rightarrow> (database \<times> int list) \<times> tables
     \<Rightarrow> string option \<times> (database \<times> int list) \<times> tables" where
  "insertKeywords f indexID keywords st = insertKeywordsFrom f 0 indexID keywords st"

datatype outcome = NotStarted string | RolledBack string | Committed

text \<open>
  \<open>indexPage\<close>. A transaction works on its own copy of the tables; \<open>Commit\<close> makes the copy
  the committed state and \<open>Rollback\<close> drops it. The result is what happened, the pauses
  made, and the database afterwards.
\<close>

definition indexPage ::
  "faults \<Rightarrow> int \<Rightarrow> string list \<Rightarrow> database \<Rightarrow> string \<Rightarrow> PageInfo
     \<Rightarrow> outcome \<times> int list \<times> database" where
  "indexPage f now keywords db u pageInfo =
     (case at_CheckConnection f of
        Some err \<Rightarrow> (NotStarted err, [], db)
      | None \<Rightarrow>
     (case at_Begin f of
        Some err \<Rightarrow> (NotStarted err, [], db)
      | None \<Rightarrow>
     (case insertOrUpdateSearchIndex f now u pageInfo (db, committed db) of
        (Inl err, db1, tx1) \<Rightarrow> (RolledBack err, [], db1)
      | (Inr indexID, db1, tx1) \<Rightarrow>
     (case insertMetaTags f indexID (MetaTags pageInfo) tx1 of
        (Some err, tx2) \<Rightarrow> (RolledBack err, [], db1)
      | (None, tx2) \<Rightarrow>
     (case insertKeywords f indexID keywords ((db1, []), tx2) of
        (Some err, (db3, sleeps), tx3) \<Rightarrow> (RolledBack err, sleeps, db3)
      | (None, (db3, sleeps), tx3) \<Rightarrow>
     (case at_Commit f of
        Some err \<Rightarrow> (RolledBack err, sleeps, db3)
      | None \<Rightarrow> (Committed, sleeps, db3\<lparr>committed := tx3\<rparr>)))))))"

text \<open>
  Reading the faults of one keyword: whether attempt \<open>i\<close> ends in a deadlock, and the number
  of the last attempt that \<open>insertKeywordWithRetries\<close> makes.
\<close>

definition deadlockAt :: "faults \<Rightarrow> nat \<Rightarrow> nat \<Rightarrow> bool" where
  "deadlockAt f k i =
     (case at_Keyword f k i of
        Some err \<Rightarrow> Contains err ''deadlock detected''
      | None \<Rightarrow> False)"

definition lastAttempt :: "faults \<Rightarrow> nat \<Rightarrow> nat" where
  "lastAttempt f k =
     (if \<not> deadlockAt f k 0 then 0 else if \<not> deadlockAt f k 1 then 1 else 2)"

section \<open>Extracting links\<close>

text \<open>
  The HTML parser (\<open>goquery\<close>) and \<open>url.ParseRequestURI\<close> are libraries; what the crawler
  takes from them is a parameter: for a text parsed as HTML, the \<open>href\<close> attribute of every
  \<open>a\<close> element in document order (empty when the element has none) and the text of the
  \<open>body\<close> element; for a string, whether it parses as a request URI.
\<close>

record html_lib =
  a_hrefs :: "string \<Rightarrow> string list"
  body_text :: "string \<Rightarrow> string"
  ParseRequestURI_ok :: "string \<Rightarrow> bool"

definition IsValidURL :: "html_lib \<Rightarrow> string \<Rightarrow> bool" where
  "IsValidURL lib u0 =
     (let u = (if \<not> Contains u0 ''://'' then ''http://'' @ u0 else u0)
      in ParseRequestURI_ok lib u)"

definition extractLinks :: "html_lib \<Rightarrow> string \<Rightarrow> string list" where
  "extractLinks lib htmlContent =
     filter (\<lambda>link. link \<noteq> '''' \<and> IsValidURL lib link)
            (map TrimSpace (a_hrefs lib htmlContent))"

text \<open>
  \<open>CrawlWebsite\<close> takes the links of the seed page from the page source. \<open>processJob\<close>
  takes the links of a crawled page from \<open>pageCache.BodyText\<close>, which \<open>extractPageInfo\<close>
  set to \<open>doc.Find("body").Text()\<close>.
\<close>

definition initialLinks :: "html_lib \<Rightarrow> string \<Rightarrow> string list" where
  "initialLinks lib htmlContent = extractLinks lib htmlContent"

definition processJob_extractedLinks :: "html_lib \<Rightarrow> string \<Rightarrow> string list" where
  "processJob_extractedLinks lib htmlContent =
     (let BodyText = body_text lib htmlContent in extractLinks lib BodyText)"

definition combineURLs :: "url_Parse \<Rightarrow> string \<Rightarrow> string \<Rightarrow> string + string" where
  "combineURLs parse baseURL relativeURL =
     (case parse baseURL of
        None \<Rightarrow> Inl ''parse error''
      | Some parsedURL \<Rightarrow>
          (let reconstructedBaseURL = url_Scheme parsedURL @ ''://'' @ url_Host parsedURL
           in if HasPrefix relativeURL ''/'' then Inr (reconstructedBaseURL @ relativeURL)
              else Inr relativeURL))"

text \<open>
  \<open>skipURL\<close> works on its own copy of the URL: the combined URL is used for the scope check
  and then dropped. An error of \<open>combineURLs\<close> is ignored and leaves the empty string.
\<close>

definition skipURL :: "url_Parse \<Rightarrow> string \<Rightarrow> int \<Rightarrow> string \<Rightarrow> bool" where
  "skipURL parse sourceURL restricted url0 =
     (let url1 = TrimSpace url0 in
      if url1 = '''' then True
      else let url2 = (if HasPrefix url1 ''/''
                       then (case combineURLs parse sourceURL url1 of
                               Inl err \<Rightarrow> ''''
                             | Inr combined \<Rightarrow> combined)
                       else url1)
           in if restricted \<noteq> 4 \<and> isExternalLink parse sourceURL url2 restricted then True
              else False)"

text \<open>The URLs that \<open>worker\<close> hands to \<open>processJob\<close>, and so to the browser.\<close>

definition worker_jobs :: "url_Parse \<Rightarrow> string \<Rightarrow> int \<Rightarrow> string list \<Rightarrow> string list" where
  "worker_jobs parse sourceURL restricted jobs =
     filter (\<lambda>u. \<not> skipURL parse sourceURL restricted u) jobs"

section \<open>Scenarios\<close>

text \<open>
  Inputs for the worked examples: the packages on ASCII text, which is all that the
  examples hold (\<open>strings.ToLower\<close> does not consult the case table on it, and no example
  calls \<open>StringToInt\<close> or \<open>GetValue\<close>); a click that the page intercepts, retried twice
  with three seconds between attempts, the same click on a page without the element, and
  the same click with a pause that does not fit into 64 bits of nanoseconds; a page in
  French visited by rules meant for
  English pages, with a plugin that answers \<open>true\<close>; two scraping rules of which the
  first reports a critical error; and pages indexed into a database that is empty or holds
  the keyword \<open>hello\<close>, with and without failing calls.
\<close>

abbreviation asciiOnly :: packages where
  "asciiOnly \<equiv>
     \<lparr>unicode_ToLower = (\<lambda>r. if 65 \<le> r \<and> r \<le> 90 then r + 32 else r),
      EqualFold = (\<lambda>s t. map toLowerChar s = map toLowerChar t),
      StringToInt = (\<lambda>s. 0),
      GetValue = (\<lambda>r. ar_Value r)\<rparr>"

abbreviation acceptButton :: Selector where
  "acceptButton \<equiv>
     \<lparr>SelectorType = ''css'', sel_Selector = ''#accept'', Attribute_Name = [],
      Attribute_Value = [], sel_Value = []\<rparr>"






abbreviation start :: rstate where
  "start \<equiv> \<lparr>history = [], TotalActions = 0\<rparr>"

abbreviation englishOnlyClick :: ActionRule where
  "englishOnlyClick \<equiv>
     \<lparr>ar_RuleName = ''accept'', ActionType = ''click'', ar_Selectors = [acceptButton],
      ar_Value = [], ar_WaitConditions = [],
      ar_Conditions = [(''language'', Str ''en''), (''plugin_call'', Str ''ready''),
                       (''selector'', Str ''is_ready'')],
      ar_ErrorHandling = \<lparr>Ignore = True, RetryCount = 0, RetryDelay = 0\<rparr>\<rparr>"

abbreviation englishOnlyScrape :: ScrapingRule where
  "englishOnlyScrape \<equiv>
     \<lparr>sr_RuleName = ''titles'', sr_WaitConditions = [],
      sr_Conditions = [(''language'', Str ''en'')]\<rparr>"

abbreviation frenchPage :: driver where
  "frenchPage \<equiv>
     \<lparr>on_FindElement = (\<lambda>h by sel. (Some 1, None)),
      on_ExecuteScript = (\<lambda>h code.
         if code = ''return document.documentElement.lang'' then Inr (Str ''fr'')
         else Inr (Boolean True)),
      on_GetAttribute = (\<lambda>h elem name. ([], None)),
      on_Command = (\<lambda>h q. None),
      on_WaitFor = (\<lambda>h wc. None),
      on_Apply = (\<lambda>h r. (''{}'', []))\<rparr>"

abbreviation readyEngine :: RuleEngine where
  "readyEngine \<equiv>
     \<lparr>JSPlugins = (\<lambda>n. if n = ''is_ready'' then Some ''return true'' else None),
      ActionRuleByName = (\<lambda>n. None)\<rparr>"

abbreviation criticalThenFine :: driver where
  "criticalThenFine \<equiv>
     \<lparr>on_FindElement = (\<lambda>h by sel. (Some 1, None)),
      on_ExecuteScript = (\<lambda>h code. Inr Nil),
      on_GetAttribute = (\<lambda>h elem name. ([], None)),
      on_Command = (\<lambda>h q. None),
      on_WaitFor = (\<lambda>h wc. None),
      on_Apply = (\<lambda>h r. if sr_RuleName r = ''first''
                          then (''{}'', [''Critical: page structure changed''])
                          else (''{}'', []))\<rparr>"

abbreviation twoRules :: "ScrapingRule list" where
  "twoRules \<equiv>
     [\<lparr>sr_RuleName = ''first'', sr_WaitConditions = [], sr_Conditions = []\<rparr>,
      \<lparr>sr_RuleName = ''second'', sr_WaitConditions = [], sr_Conditions = []\<rparr>]"

abbreviation emptyDatabase :: database where
  "emptyDatabase \<equiv>
     \<lparr>committed = \<lparr>SearchIndex = [], SourceSearchIndex = [], MetaTagsTable = [],
                    KeywordIndex = []\<rparr>,
      Keywords = [], searchindex_index_id_seq = 0, keywords_keyword_id_seq = 0\<rparr>"

abbreviation noFaults :: faults where
  "noFaults \<equiv>
     \<lparr>at_CheckConnection = None, at_Begin = None, at_SearchIndex = None,
      at_SourceSearchIndex = None, at_MetaTag = (\<lambda>i. None),
      at_KeywordCheckConnection = (\<lambda>k. None), at_Keyword = (\<lambda>k i. None),
      at_KeywordIndex = (\<lambda>k. None), at_Commit = None\<rparr>"

abbreviation helloPage :: PageInfo where
  "helloPage \<equiv>
     \<lparr>Title = ''Hello'', Summary = ''A page'', BodyText = ''hello world'',
      MetaTags = [(''description'', ''A page'')], DetectedLang = ''en'',
      DetectedType = ''text/html'', sourceID = 1\<rparr>"

abbreviation deadlockTwice :: faults where
  "deadlockTwice \<equiv>
     noFaults\<lparr>at_Keyword := (\<lambda>k i. if k = 1 \<and> i < 2
                                      then Some ''pq: deadlock detected'' else None),
              at_KeywordIndex := (\<lambda>k. if k = 1 then Some ''connection reset'' else None)\<rparr>"

abbreviation helloDatabase :: database where
  "helloDatabase \<equiv> emptyDatabase\<lparr>Keywords := [(7, ''hello'')], keywords_keyword_id_seq := 7\<rparr>"

abbreviation frenchHtmlPage :: PageInfo where
  "frenchHtmlPage \<equiv>
     \<lparr>Title = ''Bonjour'', Summary = '''', BodyText = ''bonjour'',
      MetaTags = [], DetectedLang = ''fr-FR-x-variant'',
      DetectedType = ''text/html'', sourceID = 1\<rparr>"

text \<open>
  What the libraries answer on two pages of the source \<open>http://a.test/\<close>: one with an
  absolute link, one with a relative link. A text without tags has no \<open>a\<close> element.
\<close>

abbreviation pageWithLink :: string where
  "pageWithLink \<equiv> ''<html><body><a href=http://a.test/next>next</a></body></html>''"

abbreviation pageWithRelativeLink :: string where
  "pageWithRelativeLink \<equiv> ''<html><body><a href=/about>about</a></body></html>''"

abbreviation twoPages :: html_lib where
  "twoPages \<equiv>
     \<lparr>a_hrefs = (\<lambda>h. if h = pageWithLink then [''http://a.test/next'']
                      else if h = pageWithRelativeLink then [''/about'']
                      else []),
      body_text = (\<lambda>h. if h = pageWithLink then ''next''
                        else if h = pageWithRelativeLink then ''about''
                        else h),
      ParseRequestURI_ok = (\<lambda>u. True)\<rparr>"

abbreviation parseATest :: url_Parse where
  "parseATest \<equiv>
     (\<lambda>u. if u = ''http://a.test/''
          then Some \<lparr>url_Scheme = ''http'', url_Host = ''a.test'', url_Hostname = ''a.test'',
                      url_String = ''http://a.test/''\<rparr>
          else if u = ''http://a.test/about''
          then Some \<lparr>url_Scheme = ''http'', url_Host = ''a.test'', url_Hostname = ''a.test'',
                      url_String = ''http://a.test/about''\<rparr>
          else None)"

section \<open>Results about strings\<close>

text \<open>
  \<open>TrimSpace\<close> returns a string as it is when the string starts and ends with ASCII bytes
  that are not white space.
\<close>

lemma TrimSpace_stop_keep:
  "s \<noteq> [] \<Longrightarrow> (of_char (last s) :: nat) < 0x80 \<Longrightarrow> \<not> asciiSpace (of_char (last s))
     \<Longrightarrow> TrimSpace_stop s = s"
  by (subst TrimSpace_stop.simps) simp

lemma TrimSpace_keep:
  "s \<noteq> [] \<Longrightarrow> (of_char (hd s) :: nat) < 0x80 \<Longrightarrow> \<not> asciiSpace (of_char (hd s))
     \<Longrightarrow> (of_char (last s) :: nat) < 0x80 \<Longrightarrow> \<not> asciiSpace (of_char (last s))
     \<Longrightarrow> TrimSpace s = s"
  by (cases s) (simp_all add: TrimSpace_stop_keep)

lemmas TrimSpace_ascii = TrimSpace_keep TrimSpace_stop_keep asciiSpace_def

text \<open>
  White space past ASCII is removed too: a no-break space (U+00A0, the bytes \<open>C2 A0\<close>) in
  front of \<open>/b\<close>, and an ideographic space (U+3000, the bytes \<open>E3 80 80\<close>) behind it.
\<close>

lemma DecodeRuneInString_nbsp:
  "DecodeRuneInString (CHR 0xC2 # CHR 0xA0 # s) = (0xA0, 2)"
  by (simp add: DecodeRuneInString_def acceptLo_def acceptHi_def)

lemma TrimLeftFunc_nbsp:
  "TrimLeftFunc IsSpace [CHR 0xC2, CHR 0xA0, CHR ''/'', CHR ''b''] = ''/b''"
  by (simp add: DecodeRuneInString_nbsp IsSpace_def) (simp add: DecodeRuneInString_def)

lemma TrimRightFunc_slash_b: "TrimRightFunc IsSpace ''/b'' = ''/b''"
proof -
  have "DecodeLastRuneInString ''/b'' = (98, 1)"
    by (simp add: DecodeLastRuneInString_def DecodeLastRune_def)
  then have "lastIndexFunc IsSpace ''/b'' = Some 1"
    by (subst lastIndexFunc.simps) (simp add: IsSpace_def)
  then show ?thesis by (simp add: TrimRightFunc_def)
qed

lemma TrimSpace_no_break_space:
  "TrimSpace [CHR 0xC2, CHR 0xA0, CHR ''/'', CHR ''b''] = ''/b''"
  by (simp add: TrimFunc_def DecodeRuneInString_nbsp IsSpace_def TrimLeftFunc_nbsp
      TrimRightFunc_slash_b del: TrimLeftFunc.simps)

lemma DecodeLastRuneInString_ideographic:
  "DecodeLastRuneInString [CHR ''/'', CHR ''b'', CHR 0xE3, CHR 0x80, CHR 0x80] = (0x3000, 3)"
  by (simp add: DecodeLastRuneInString_def DecodeLastRune_def RuneStart_def continuation_def
      acceptLo_def acceptHi_def Let_def)

lemma TrimSpace_ideographic_space:
  "TrimSpace [CHR ''/'', CHR ''b'', CHR 0xE3, CHR 0x80, CHR 0x80] = ''/b''"
proof -
  have "DecodeLastRuneInString ''/b'' = (98, 1)"
    by (simp add: DecodeLastRuneInString_def DecodeLastRune_def)
  then have 1: "lastIndexFunc IsSpace ''/b'' = Some 1"
    by (subst lastIndexFunc.simps) (simp add: IsSpace_def)
  have 2: "lastIndexFunc IsSpace [CHR ''/'', CHR ''b'', CHR 0xE3, CHR 0x80, CHR 0x80] = Some 1"
    by (subst lastIndexFunc.simps) (simp add: DecodeLastRuneInString_ideographic IsSpace_def 1)
  have "TrimRightFunc IsSpace [CHR ''/'', CHR ''b'', CHR 0xE3, CHR 0x80, CHR 0x80] = ''/b''"
    by (simp add: TrimRightFunc_def 2)
  then show ?thesis
    by (simp add: asciiSpace_def) (subst TrimSpace_stop.simps, simp)
qed

section \<open>Results about the pre-conditions\<close>

lemma urlPatternLoop_last:
  "urlPatternLoop ps url b = (if ps = [] then b else Contains url (last ps))"
  by (induction ps arbitrary: b) auto

lemma checkScrapingPreConditions_last:
  "checkScrapingPreConditions c url
     = (URLPatterns c = [] \<or> Contains url (last (URLPatterns c)))"
  by (simp add: checkScrapingPreConditions_def urlPatternLoop_last)

lemma checkActionPreConditions_last:
  "checkActionPreConditions c url
     = (URLPatterns c = [] \<or> Contains url (last (URLPatterns c)))"
  by (simp add: checkActionPreConditions_def urlPatternLoop_last)

text \<open>
  C9. The claim reads the pre-condition as a conjunction over all URL patterns. On the
  patterns \<open>["blog", "a.test"]\<close> and the page \<open>http://a.test/\<close> both functions return true,
  although the page does not contain the first pattern: only the last pattern counts.
\<close>

theorem checkPreConditions_last_pattern_wins:
  "checkScrapingPreConditions \<lparr>URLPatterns = [''blog'', ''a.test'']\<rparr> ''http://a.test/'' = True
   \<and> checkActionPreConditions \<lparr>URLPatterns = [''blog'', ''a.test'']\<rparr> ''http://a.test/'' = True
   \<and> matchesEveryPattern [''blog'', ''a.test''] ''http://a.test/'' = False"
  by (simp add: checkScrapingPreConditions_def checkActionPreConditions_def
      matchesEveryPattern_def)

section \<open>Results about the domain scope\<close>

lemma Split_nonempty: "Split s c \<noteq> []"
  by (induction s) (auto split: list.splits)

lemma Split_no_sep: "p \<in> set (Split s c) \<Longrightarrow> c \<notin> set p"
  by (induction s arbitrary: p) (auto split: list.splits if_splits)

lemma Split_append_piece:
  "c \<notin> set x \<Longrightarrow> Split (x @ c # s) c = x # Split s c"
  by (induction x) (auto split: list.splits)

lemma Split_piece: "c \<notin> set x \<Longrightarrow> Split x c = [x]"
  by (induction x) (auto split: list.splits)

lemma Split_Join:
  "xs \<noteq> [] \<Longrightarrow> (\<forall>p \<in> set xs. c \<notin> set p) \<Longrightarrow> Split (Join xs [c]) c = xs"
proof (induction xs "[c]" rule: Join.induct)
  case 1
  then show ?case by simp
next
  case (2 x)
  then show ?case by (simp add: Split_piece)
next
  case (3 x y ys)
  then show ?case by (simp add: Split_append_piece)
qed

lemma Join_inject:
  assumes "xs \<noteq> []" "ys \<noteq> []" "\<forall>p \<in> set xs. c \<notin> set p" "\<forall>p \<in> set ys. c \<notin> set p"
  shows "(Join xs [c] = Join ys [c]) = (xs = ys)"
proof
  assume "Join xs [c] = Join ys [c]"
  then have "Split (Join xs [c]) c = Split (Join ys [c]) c" by simp
  with assms show "xs = ys" by (simp add: Split_Join)
qed simp

lemma getDomainParts_drop:
  assumes "parts \<noteq> []" "level \<in> {1, 2, 3}"
  shows "getDomainParts parts level = Join (drop (length parts - nat (4 - level)) parts) ''.''"
proof -
  have "parts = butlast parts @ [last parts]" using assms(1) by simp
  then have "drop (length (butlast parts)) parts = [last parts]"
    by (metis append_eq_conv_conj)
  then have l: "drop (length parts - Suc 0) parts = [last parts]" by simp
  have n: "parts ! (length parts - Suc 0) = last parts"
    using assms(1) by (simp add: last_conv_nth)
  from assms(2) consider "level = 1" | "level = 2" | "level = 3" by auto
  then show ?thesis
  proof cases
    case 1 then show ?thesis by (auto simp: getDomainParts_def Let_def)
  next
    case 2 then show ?thesis by (auto simp: getDomainParts_def Let_def)
  next
    case 3
    have "1 \<le> length parts" using assms(1) by (cases parts) simp_all
    with 3 l n show ?thesis by (simp add: getDomainParts_def Let_def)
  qed
qed

lemma getDomainParts_other:
  "level \<notin> {1, 2, 3} \<Longrightarrow> getDomainParts parts level = Join parts ''.''"
  by (auto simp: getDomainParts_def Let_def)

lemma Join_Split: "Join (Split s c) [c] = s"
proof (induction s)
  case Nil then show ?case by simp
next
  case (Cons a s)
  show ?case
  proof (cases "a = c")
    case True
    obtain p ps where "Split s c = p # ps" using Split_nonempty[of s c] by (cases "Split s c") auto
    with True Cons show ?thesis by simp
  next
    case False
    obtain p ps where sp: "Split s c = p # ps" using Split_nonempty[of s c] by (cases "Split s c") auto
    with False Cons show ?thesis by (cases ps) auto
  qed
qed

lemma getDomainParts_differ:
  assumes "level \<in> {1, 2, 3}"
  shows "(getDomainParts (Split h1 CHR ''.'') level \<noteq> getDomainParts (Split h2 CHR ''.'') level)
       = (lastLabels (nat (4 - level)) h1 \<noteq> lastLabels (nat (4 - level)) h2)"
proof -
  let ?k = "nat (4 - level)"
  let ?d1 = "drop (length (Split h1 CHR ''.'') - ?k) (Split h1 CHR ''.'')"
  let ?d2 = "drop (length (Split h2 CHR ''.'') - ?k) (Split h2 CHR ''.'')"
  have k: "0 < ?k" using assms by auto
  have len: "length (Split h CHR ''.'') - ?k < length (Split h CHR ''.'')" for h
    using k by (intro diff_less) (simp_all add: Split_nonempty)
  have ne: "?d1 \<noteq> []" "?d2 \<noteq> []"
    using len[of h1] len[of h2] by (simp_all only: drop_eq_Nil not_le)
  have nd: "\<forall>p \<in> set ?d1. CHR ''.'' \<notin> set p" "\<forall>p \<in> set ?d2. CHR ''.'' \<notin> set p"
    by (meson Split_no_sep in_set_dropD)+
  have "(Join ?d1 ''.'' = Join ?d2 ''.'') = (?d1 = ?d2)"
    using Join_inject[OF ne nd] .
  then show ?thesis
    by (simp add: getDomainParts_drop[OF Split_nonempty assms] lastLabels_def Let_def)
qed

lemma Join_Split_differ:
  "(Join (Split h1 c) [c] \<noteq> Join (Split h2 c) [c]) = (h1 \<noteq> h2)"
  by (simp add: Join_Split)

text \<open>
  C4, as the code has it. Scope 4 never filters. At every other scope a link that starts
  with a slash once trimmed is never external, and neither is any link when the seed or the
  link fails to parse. Otherwise scope 0 compares the re-serialised forms of the two parsed
  URLs, and scopes 1, 2 and 3 compare the last 3, 2 and 1 labels of the two host names
  (all labels of a host name that has fewer). Any other scope compares the whole host names.
\<close>

theorem isExternalLink_scope:
  "isExternalLink parse sourceURL linkURL domainLevel =
     (if domainLevel = 4 then False
      else if HasPrefix (TrimSpace linkURL) ''/'' then False
      else case (parse sourceURL, parse (TrimSpace linkURL)) of
          (Some s, Some l) \<Rightarrow>
            if domainLevel = 0 then url_String s \<noteq> url_String l
            else if domainLevel \<in> {1, 2, 3}
            then lastLabels (nat (4 - domainLevel)) (url_Hostname s)
                   \<noteq> lastLabels (nat (4 - domainLevel)) (url_Hostname l)
            else url_Hostname s \<noteq> url_Hostname l
        | _ \<Rightarrow> False)"
proof (cases "domainLevel \<in> {1, 2, 3}")
  case True
  then have ne: "domainLevel \<noteq> 4" "domainLevel \<noteq> 0" by auto
  have "isExternalLink parse sourceURL linkURL domainLevel =
     (if HasPrefix (TrimSpace linkURL) ''/'' then False
      else case (parse sourceURL, parse (TrimSpace linkURL)) of
          (Some s, Some l) \<Rightarrow>
             getDomainParts (Split (url_Hostname s) CHR ''.'') domainLevel
               \<noteq> getDomainParts (Split (url_Hostname l) CHR ''.'') domainLevel
        | _ \<Rightarrow> False)"
    using ne by (simp add: isExternalLink_def Let_def split: option.splits)
  also have "\<dots> =
     (if HasPrefix (TrimSpace linkURL) ''/'' then False
      else case (parse sourceURL, parse (TrimSpace linkURL)) of
          (Some s, Some l) \<Rightarrow>
             lastLabels (nat (4 - domainLevel)) (url_Hostname s)
               \<noteq> lastLabels (nat (4 - domainLevel)) (url_Hostname l)
        | _ \<Rightarrow> False)"
    by (simp only: getDomainParts_differ[OF True])
  finally show ?thesis using ne True by (simp only: if_False if_True)
next
  case False
  then show ?thesis
    by (simp add: isExternalLink_def Let_def getDomainParts_other Join_Split
        split: option.splits)
qed

text \<open>
  C4 as stated fails at scope 0. A link that does not parse, such as one with a broken
  escape, is not string-equal to the seed \<open>http://a.test/\<close>, yet it is reported as not
  external; and so is the relative link \<open>/b\<close>, whatever the parser returns, also with a
  no-break space in front of it.
\<close>

theorem isExternalLink_scope0_counterexample:
  "isExternalLink parseATest ''http://a.test/'' ''http://a.test/%zz'' 0 = False
   \<and> ''http://a.test/%zz'' \<noteq> ''http://a.test/''
   \<and> isExternalLink parseATest ''http://a.test/'' ''/b'' 0 = False
   \<and> ''/b'' \<noteq> ''http://a.test/''
   \<and> isExternalLink parseATest ''http://a.test/'' [CHR 0xC2, CHR 0xA0, CHR ''/'', CHR ''b''] 0
       = False"
  by (simp add: isExternalLink_def TrimSpace_ascii TrimSpace_no_break_space
      del: TrimSpace.simps)

section \<open>Results about claiming sources\<close>

lemma sql_lt_older_than: "sql_lt (src_last_updated_at s) (now - age) = older_than now age s"
  by (cases "src_last_updated_at s") (simp_all add: older_than_def)

lemma SelectedSources_where_eligible: "SelectedSources_where now s = eligible now s"
  unfolding SelectedSources_where_def eligible_def sql_lt_older_than by auto

lemma SelectedSources_Inr:
  assumes "SelectedSources limit_val now Sources = Inr ids"
  shows "\<exists>k. ids = map src_source_id (take k (filter (SelectedSources_where now) Sources))
           \<and> (case limit_val of None \<Rightarrow> k = length Sources | Some n \<Rightarrow> 0 \<le> n \<and> k = nat n)"
proof (cases limit_val)
  case None
  with assms have "ids = map src_source_id (take (length Sources)
      (filter (SelectedSources_where now) Sources))"
    by (simp add: SelectedSources_def)
  with None show ?thesis by auto
next
  case (Some n)
  with assms show ?thesis
    by (auto simp: SelectedSources_def split: if_splits)
qed

lemma filter_mem_take_filter:
  "distinct xs \<Longrightarrow> filter (\<lambda>x. x \<in> set (take k (filter P xs))) xs = take k (filter P xs)"
proof (induction xs arbitrary: k)
  case Nil
  then show ?case by simp
next
  case (Cons a xs)
  have notin: "a \<notin> set (take j (filter P xs))" for j
    using Cons.prems by (auto dest: in_set_takeD)
  show ?case
  proof (cases "P a")
    case False
    with Cons notin show ?thesis by simp
  next
    case True
    show ?thesis
    proof (cases k)
      case 0
      then show ?thesis by simp
    next
      case (Suc j)
      have "filter (\<lambda>x. x = a \<or> x \<in> set (take j (filter P xs))) xs
             = filter (\<lambda>x. x \<in> set (take j (filter P xs))) xs"
        using Cons.prems by (intro filter_cong) auto
      with True Suc Cons show ?thesis by simp
    qed
  qed
qed

lemma filter_ids_take_filter:
  assumes "distinct (map f xs)"
  shows "filter (\<lambda>x. f x \<in> set (map f (take k (filter P xs)))) xs = take k (filter P xs)"
proof -
  have inj: "inj_on f (set xs)" and d: "distinct xs"
    using assms by (simp_all add: distinct_map)
  have "filter (\<lambda>x. f x \<in> set (map f (take k (filter P xs)))) xs
          = filter (\<lambda>x. x \<in> set (take k (filter P xs))) xs"
  proof (intro filter_cong refl)
    fix x assume x: "x \<in> set xs"
    have sub: "set (take k (filter P xs)) \<subseteq> set xs"
      by (auto dest: in_set_takeD)
    show "(f x \<in> set (map f (take k (filter P xs)))) = (x \<in> set (take k (filter P xs)))"
      using inj x sub by (auto simp: inj_on_def)
  qed
  then show ?thesis by (simp add: filter_mem_take_filter[OF d])
qed

lemma set_processing_fields:
  "src_source_id (set_processing now s) = src_source_id s"
  "src_status (set_processing now s) = Some ''processing''"
  "src_last_updated_at (set_processing now s) = Some now"
  by (simp_all add: set_processing_def update_last_updated_at_column_def)

lemma set_processing_not_selected:
  "now2 \<le> now1 + interval_3_days \<Longrightarrow> \<not> SelectedSources_where now2 (set_processing now1 s)"
  by (simp add: SelectedSources_where_def set_processing_fields)

lemma fst_returning_row: "fst (returning_row s) = src_source_id s"
  by (simp add: returning_row_def)

lemma update_sources_Inr:
  assumes "update_sources limit_val now Sources = Inr (rows, Sources')"
  obtains ids where "SelectedSources limit_val now Sources = Inr ids"
    and "rows = map (\<lambda>s. returning_row (set_processing now s))
                   (filter (\<lambda>s. src_source_id s \<in> set ids) Sources)"
    and "Sources' = map (\<lambda>s. if src_source_id s \<in> set ids then set_processing now s else s)
                   Sources"
  using assms by (auto simp: update_sources_def split: sum.splits)

lemma update_sources_ids:
  assumes "update_sources limit_val now Sources = Inr (rows, Sources')"
      and "SelectedSources limit_val now Sources = Inr ids"
  shows "set (map fst rows) = set ids"
proof -
  obtain k where k: "ids = map src_source_id (take k (filter (SelectedSources_where now) Sources))"
    using SelectedSources_Inr[OF assms(2)] by blast
  have sub: "set ids \<subseteq> src_source_id ` set Sources"
    unfolding k by (auto dest: in_set_takeD)
  have "map fst rows = map src_source_id (filter (\<lambda>s. src_source_id s \<in> set ids) Sources)"
    using assms by (auto simp: update_sources_def fst_returning_row set_processing_fields
        comp_def)
  then show ?thesis using sub by auto
qed

text \<open>
  Calls of \<open>update_sources\<close> that run one after the other. With \<open>source_id\<close> the primary
  key: every returned source was eligible when it was selected (the \<open>WHERE\<close> clause of the
  procedure is the eligibility of the specification), the number of returned rows is the
  limit or the number of eligible sources if that is smaller, the new table differs from
  the old one exactly in that the returned sources are in status \<open>processing\<close> (their
  \<open>last_updated_at\<close> set by the trigger), and a later call whose clock is not more than
  three days ahead of the first returns none of the sources the first returned. Calls that
  overlap in time are not modelled.
\<close>

theorem update_sources_in_turn:
  assumes pk: "distinct (map src_source_id Sources)"
      and c1: "update_sources limit1 now1 Sources = Inr (rows1, Sources1)"
      and c2: "update_sources limit2 now2 Sources1 = Inr (rows2, Sources2)"
      and near: "now2 \<le> now1 + interval_3_days"
  shows "(\<forall>s \<in> set Sources. src_source_id s \<in> set (map fst rows1) \<longrightarrow>
            eligible now1 s)
       \<and> length rows1 = (case limit1 of
              None \<Rightarrow> length (filter (eligible now1) Sources)
            | Some n \<Rightarrow> min (nat n) (length (filter (eligible now1) Sources)))
       \<and> rows1 = map (\<lambda>s. returning_row (set_processing now1 s))
                    (filter (\<lambda>s. src_source_id s \<in> set (map fst rows1)) Sources)
       \<and> Sources1 = map (\<lambda>s. if src_source_id s \<in> set (map fst rows1)
                                then s\<lparr>src_status := Some ''processing'',
                                       src_last_updated_at := Some now1\<rparr>
                                else s) Sources
       \<and> set (map fst rows1) \<inter> set (map fst rows2) = {}"
proof -
  obtain ids1 where s1: "SelectedSources limit1 now1 Sources = Inr ids1"
    and r1: "rows1 = map (\<lambda>s. returning_row (set_processing now1 s))
                   (filter (\<lambda>s. src_source_id s \<in> set ids1) Sources)"
    and t1: "Sources1 = map (\<lambda>s. if src_source_id s \<in> set ids1 then set_processing now1 s else s)
                   Sources"
    using update_sources_Inr[OF c1] by blast
  obtain ids2 where s2: "SelectedSources limit2 now2 Sources1 = Inr ids2"
    using update_sources_Inr[OF c2] by blast
  have i1: "set (map fst rows1) = set ids1" by (rule update_sources_ids[OF c1 s1])
  have i2: "set (map fst rows2) = set ids2" by (rule update_sources_ids[OF c2 s2])
  obtain k where k: "ids1 = map src_source_id (take k (filter (SelectedSources_where now1) Sources))"
    and kl: "case limit1 of None \<Rightarrow> k = length Sources | Some n \<Rightarrow> 0 \<le> n \<and> k = nat n"
    using SelectedSources_Inr[OF s1] by blast
  have f: "filter (\<lambda>s. src_source_id s \<in> set ids1) Sources
             = take k (filter (SelectedSources_where now1) Sources)"
    unfolding k by (rule filter_ids_take_filter[OF pk])
  have eligible: "\<forall>s \<in> set Sources. src_source_id s \<in> set (map fst rows1) \<longrightarrow>
            eligible now1 s"
  proof (intro ballI impI)
    fix s assume "s \<in> set Sources" "src_source_id s \<in> set (map fst rows1)"
    then have "s \<in> set (filter (\<lambda>s. src_source_id s \<in> set ids1) Sources)"
      using i1 by simp
    then have "s \<in> set (filter (SelectedSources_where now1) Sources)"
      unfolding f by (rule in_set_takeD)
    then have "SelectedSources_where now1 s" by simp
    then show "eligible now1 s" by (simp only: SelectedSources_where_eligible)
  qed
  have count: "length rows1 = (case limit1 of
            None \<Rightarrow> length (filter (eligible now1) Sources)
          | Some n \<Rightarrow> min (nat n) (length (filter (eligible now1) Sources)))"
  proof -
    have "length rows1 = min k (length (filter (eligible now1) Sources))"
      unfolding r1 f by (simp add: SelectedSources_where_eligible[abs_def])
    moreover have "length (filter (eligible now1) Sources) \<le> length Sources"
      by simp
    ultimately show ?thesis using kl by (auto split: option.splits)
  qed
  have returned: "rows1 = map (\<lambda>s. returning_row (set_processing now1 s))
                  (filter (\<lambda>s. src_source_id s \<in> set (map fst rows1)) Sources)"
    using r1 unfolding i1 .
  have flipped: "Sources1 = map (\<lambda>s. if src_source_id s \<in> set (map fst rows1)
                              then s\<lparr>src_status := Some ''processing'',
                                     src_last_updated_at := Some now1\<rparr>
                              else s) Sources"
    using t1 unfolding i1 by (simp add: set_processing_def update_last_updated_at_column_def)
  have disjoint: "set (map fst rows1) \<inter> set (map fst rows2) = {}"
  proof (rule ccontr)
    assume "set (map fst rows1) \<inter> set (map fst rows2) \<noteq> {}"
    then obtain i where a: "i \<in> set ids1" and b: "i \<in> set ids2"
      unfolding i1 i2 by auto
    obtain k2 where "ids2 = map src_source_id
        (take k2 (filter (SelectedSources_where now2) Sources1))"
      using SelectedSources_Inr[OF s2] by blast
    with b obtain s' where s': "s' \<in> set Sources1" "SelectedSources_where now2 s'"
      "src_source_id s' = i"
      by (auto dest!: in_set_takeD)
    from s'(1) obtain s where s: "s \<in> set Sources"
      "s' = (if src_source_id s \<in> set ids1 then set_processing now1 s else s)"
      unfolding t1 by auto
    have "src_source_id s = i"
      using s(2) s'(3) by (auto simp: set_processing_fields split: if_splits)
    with a s(2) have "s' = set_processing now1 s" by simp
    with s'(2) set_processing_not_selected[OF near] show False by simp
  qed
  from eligible count returned flipped disjoint show ?thesis by (intro conjI)
qed

text \<open>
  The scenario of two dispatchers and three new sources, each dispatcher asking for two:
  the first gets sources 1 and 2, the second gets source 3.
\<close>

theorem update_sources_in_turn_example:
  "distinct (map src_source_id
     [insert_source 0 1 ''http://a.test/'', insert_source 0 2 ''http://b.test/'',
      insert_source 0 3 ''http://c.test/''])
   \<and> map fst (fst (projr (update_sources (Some 2) 1000
        [insert_source 0 1 ''http://a.test/'', insert_source 0 2 ''http://b.test/'',
         insert_source 0 3 ''http://c.test/'']))) = [1, 2]
   \<and> map fst (fst (projr (update_sources (Some 2) 2000
        (snd (projr (update_sources (Some 2) 1000
          [insert_source 0 1 ''http://a.test/'', insert_source 0 2 ''http://b.test/'',
           insert_source 0 3 ''http://c.test/'']))))))  = [3]
   \<and> set [1, 2] \<inter> set [3 :: int] = {}"
proof -
  let ?T = "[insert_source 0 1 ''http://a.test/'', insert_source 0 2 ''http://b.test/'',
      insert_source 0 3 ''http://c.test/'']"
  let ?R1 = "map (\<lambda>s. returning_row (set_processing 1000 s)) (take 2 ?T)"
  let ?T1 = "map (set_processing 1000) (take 2 ?T) @ drop 2 ?T"
  let ?R2 = "map (\<lambda>s. returning_row (set_processing 2000 s)) (drop 2 ?T)"
  let ?T2 = "map (set_processing 1000) (take 2 ?T) @ map (set_processing 2000) (drop 2 ?T)"
  have pk: "distinct (map src_source_id ?T)"
    by (simp add: insert_source_def)
  have c1: "update_sources (Some 2) 1000 ?T = Inr (?R1, ?T1)"
    by (simp add: update_sources_def SelectedSources_def SelectedSources_where_def
        insert_source_def)
  have c2: "update_sources (Some 2) 2000 ?T1 = Inr (?R2, ?T2)"
    by (simp add: update_sources_def SelectedSources_def SelectedSources_where_def
        insert_source_def set_processing_def update_last_updated_at_column_def
        interval_3_days_def)
  have near: "(2000 :: int) \<le> 1000 + interval_3_days"
    by (simp add: interval_3_days_def)
  have "set (map fst ?R1) \<inter> set (map fst ?R2) = {}"
    using update_sources_in_turn[OF pk c1 c2 near] by blast
  then show ?thesis
    using pk c1 c2
    by (simp add: returning_row_def set_processing_def update_last_updated_at_column_def
        insert_source_def)
qed

text \<open>
  The dispatcher's query writes nothing, returns every row that its \<open>WHERE\<close> clause
  selects, and does not look at column \<open>disabled\<close>. Its clause is not the eligibility of
  the procedure: it selects a disabled source that was never crawled, and it does not
  select a new source that was crawled a minute ago, which the procedure would claim.
\<close>

lemma checkSources_query_table: "snd (checkSources_query now Sources) = Sources"
  by (simp add: checkSources_query_def)

lemma insert_by_last_crawled_at_length:
  "length (insert_by_last_crawled_at s rows) = Suc (length rows)"
  by (induction rows) auto

lemma checkSources_query_count:
  "length (fst (checkSources_query now Sources))
     = length (filter (checkSources_where now) Sources)"
proof -
  have "length (foldr insert_by_last_crawled_at rows []) = length rows" for rows
    by (induction rows) (simp_all add: insert_by_last_crawled_at_length)
  then show ?thesis
    by (simp add: checkSources_query_def order_by_last_crawled_at_def)
qed

lemma checkSources_where_disabled:
  "checkSources_where now (s\<lparr>src_disabled := d\<rparr>) = checkSources_where now s"
  by (simp add: checkSources_where_def)

lemma checkSources_where_not_eligible:
  "checkSources_where 1000 ((insert_source 0 1 ''http://a.test/'')\<lparr>src_disabled := Some True\<rparr>)
   \<and> \<not> eligible 1000 ((insert_source 0 1 ''http://a.test/'')\<lparr>src_disabled := Some True\<rparr>)
   \<and> \<not> checkSources_where 60000000
         ((insert_source 0 1 ''http://a.test/'')\<lparr>src_last_crawled_at := Some 0\<rparr>)
   \<and> eligible 60000000
         ((insert_source 0 1 ''http://a.test/'')\<lparr>src_last_crawled_at := Some 0\<rparr>)"
  by (simp add: checkSources_where_def eligible_def insert_source_def interval_3_days_def
      interval_15_minutes_def interval_1_week_def)

text \<open>
  C1. The claim holds for the stored procedure called in turn and fails for the
  dispatcher, which does not call it. Take four new sources, the second one disabled, and a
  limit of two. \<open>checkSources\<close> selects all four, the disabled one among them, and leaves
  their status as it was, so that the query of a second dispatcher returns the same four
  sources. \<open>update_sources\<close> on the same table returns the sources 1 and 3 and sets them
  to \<open>processing\<close>, and a second call returns source 4.
\<close>

theorem checkSources_claims_nothing:
  "fst (checkSources_query 1000
        [insert_source 0 1 ''http://a.test/'',
         (insert_source 0 2 ''http://b.test/'')\<lparr>src_disabled := Some True\<rparr>,
         insert_source 0 3 ''http://c.test/'', insert_source 0 4 ''http://d.test/''])
     = [(''http://a.test/'', Some 2), (''http://b.test/'', Some 2),
        (''http://c.test/'', Some 2), (''http://d.test/'', Some 2)]
   \<and> snd (checkSources_query 1000
        [insert_source 0 1 ''http://a.test/'',
         (insert_source 0 2 ''http://b.test/'')\<lparr>src_disabled := Some True\<rparr>,
         insert_source 0 3 ''http://c.test/'', insert_source 0 4 ''http://d.test/''])
     = [insert_source 0 1 ''http://a.test/'',
        (insert_source 0 2 ''http://b.test/'')\<lparr>src_disabled := Some True\<rparr>,
        insert_source 0 3 ''http://c.test/'', insert_source 0 4 ''http://d.test/'']
   \<and> fst (checkSources_query 2000 (snd (checkSources_query 1000
        [insert_source 0 1 ''http://a.test/'',
         (insert_source 0 2 ''http://b.test/'')\<lparr>src_disabled := Some True\<rparr>,
         insert_source 0 3 ''http://c.test/'', insert_source 0 4 ''http://d.test/''])))
     = [(''http://a.test/'', Some 2), (''http://b.test/'', Some 2),
        (''http://c.test/'', Some 2), (''http://d.test/'', Some 2)]
   \<and> map fst (fst (projr (update_sources (Some 2) 1000
        [insert_source 0 1 ''http://a.test/'',
         (insert_source 0 2 ''http://b.test/'')\<lparr>src_disabled := Some True\<rparr>,
         insert_source 0 3 ''http://c.test/'', insert_source 0 4 ''http://d.test/'']))) = [1, 3]
   \<and> map src_status (snd (projr (update_sources (Some 2) 1000
        [insert_source 0 1 ''http://a.test/'',
         (insert_source 0 2 ''http://b.test/'')\<lparr>src_disabled := Some True\<rparr>,
         insert_source 0 3 ''http://c.test/'', insert_source 0 4 ''http://d.test/''])))
     = [Some ''processing'', Some ''new'', Some ''processing'', Some ''new'']
   \<and> map fst (fst (projr (update_sources (Some 2) 2000
        (snd (projr (update_sources (Some 2) 1000
          [insert_source 0 1 ''http://a.test/'',
           (insert_source 0 2 ''http://b.test/'')\<lparr>src_disabled := Some True\<rparr>,
           insert_source 0 3 ''http://c.test/'', insert_source 0 4 ''http://d.test/'']))))))
     = [4]"
  by (simp add: checkSources_query_def checkSources_where_def order_by_last_crawled_at_def
      update_sources_def SelectedSources_def SelectedSources_where_def insert_source_def
      returning_row_def set_processing_def update_last_updated_at_column_def
      interval_3_days_def)

section \<open>Results about releasing a source\<close>

text \<open>
  C8, as the code has it. When the connection check and the statement succeed, every row
  whose \<open>url\<close> is the source's is rewritten and no other row is. After a crawl without error
  the row gets status \<open>completed\<close> and \<open>last_crawled_at = now\<close>; \<open>last_error\<close> and
  \<open>last_error_at\<close> stay as they were. After a crawl error the row gets status \<open>error\<close>, the
  message in \<open>last_error\<close>, \<open>last_error_at = now\<close> and also \<open>last_crawled_at = now\<close>. In both
  cases the table's trigger sets \<open>last_updated_at = now\<close>. No other column changes. When the
  connection check or the statement fails the table is left as it was.
\<close>

theorem updateSourceState_columns:
  "updateSourceState checkConnection execError now Sources sourceURL crawlError =
     (if checkConnection = None \<and> execError = None
      then map (\<lambda>s. if src_url s = sourceURL
                      then (case crawlError of
                              None \<Rightarrow>
                                s\<lparr>src_status := Some ''completed'',
                                  src_last_crawled_at := Some now,
                                  src_last_updated_at := Some now\<rparr>
                            | Some msg \<Rightarrow>
                                s\<lparr>src_status := Some ''error'',
                                  src_last_error := Some msg,
                                  src_last_error_at := Some now,
                                  src_last_crawled_at := Some now,
                                  src_last_updated_at := Some now\<rparr>)
                      else s) Sources
      else Sources)"
  by (cases crawlError)
     (simp_all add: updateSourceState_def update_source_error_def
        update_source_completed_def update_last_updated_at_column_def)

text \<open>
  C8 as stated fails twice. A source that carries an error message from an earlier crawl
  keeps it after a successful release, and a failed release also writes
  \<open>last_crawled_at\<close> and \<open>last_updated_at\<close>.
\<close>

theorem updateSourceState_counterexample:
  "map src_last_error
     (updateSourceState None None 5000
        [(insert_source 0 1 ''http://a.test/'')
           \<lparr>src_status := Some ''processing'', src_last_error := Some ''timeout''\<rparr>]
        ''http://a.test/'' None) = [Some ''timeout'']
   \<and> map (\<lambda>s. (src_last_crawled_at s, src_last_updated_at s))
       (updateSourceState None None 5000
          [insert_source 0 1 ''http://a.test/''] ''http://a.test/'' (Some ''boom''))
     = [(Some 5000, Some 5000)]
   \<and> map (\<lambda>s. (src_last_crawled_at s, src_last_updated_at s))
       [insert_source 0 1 ''http://a.test/''] = [(None, None)]"
  by (simp add: updateSourceState_def update_source_error_def
      update_source_completed_def update_last_updated_at_column_def insert_source_def)

section \<open>Results about the rule engine\<close>







lemma seconds_wrap: "int64 (int64 9223372037 * Second) = - 9223372036709551616"
  by (simp add: int64_def Second_def)



lemmas rule_engine_defs =
  attempt_def executeActionRule_def dispatchAction_def executeActionClick_def
  findElementBySelectorType_def findElementByType_def matchL2_def FindElementBy_def
  command_def ToLower_def toLowerChar_def TrimSpace_ascii record_request_def
  sleepBeforeRetry_def time_Sleep_seconds_def time_Sleep_def int64_def Second_def


text \<open>
  A click and an input on a page where the lookup finds no element return no error, whatever
  error the lookup returned.
\<close>

lemma executeActionClick_no_element:
  "findElementBySelectorType pk wd (ar_Selectors r) st = ((None, selector, err), st')
     \<Longrightarrow> executeActionClick pk wd r st = Some (None, st')"
  by (simp add: executeActionClick_def)

lemma executeActionInput_no_element:
  "findElementBySelectorType pk wd (ar_Selectors r) st = ((None, selector, err), st')
     \<Longrightarrow> executeActionInput pk wd r st = Some (None, st')"
  by (simp add: executeActionInput_def)


text \<open>
  C5. The claim holds for scraping rules and fails for action rules. On a French page a
  rule with the conditions \<open>language = en\<close> and \<open>plugin_call\<close> passes
  \<open>checkActionConditions\<close> when the plugin answers \<open>true\<close>: the plugin block assigns
  \<open>canProceed = true\<close> over the \<open>false\<close> that the language block left, and the click is
  performed. \<open>checkScrapingConditions\<close> rejects the same page.
\<close>

theorem plugin_call_overrides_language:
  "checkActionConditions asciiOnly readyEngine frenchPage (ar_Conditions englishOnlyClick) start
     = Some (True, \<lparr>history = [ExecuteScript ''return document.documentElement.lang'',
                               ExecuteScript ''return true''], TotalActions = 0\<rparr>)
   \<and> executeActionRule asciiOnly readyEngine frenchPage englishOnlyClick start
     = Some (None, \<lparr>history = [ExecuteScript ''return document.documentElement.lang'',
                               ExecuteScript ''return true'',
                               FindElement ''css selector'' ''#accept'', Click 1],
                    TotalActions = 0\<rparr>)
   \<and> checkScrapingConditions frenchPage (sr_Conditions englishOnlyScrape) start
     = Some (False, \<lparr>history = [ExecuteScript ''return document.documentElement.lang''],
                     TotalActions = 0\<rparr>)"
  by (simp add: checkActionConditions_def checkScrapingConditions_def elementCondition_def
      languageCondition_def pluginCondition_def ExecuteScriptIn_def rule_engine_defs)

text \<open>
  C7. The claim holds for a ruleset and fails for a rule group. With two rules of which the
  first reports an error that contains \<open>Critical\<close>, \<open>executeScrapingRulesInRuleGroup\<close>
  still applies the second rule and returns no error, while
  \<open>executeScrapingRulesInRuleset\<close> stops after the first.
\<close>

theorem rule_group_runs_on_after_critical:
  "executeScrapingRulesInRuleGroup criticalThenFine twoRules start
     = Some (('''', None),
             \<lparr>history = [SetEnv, Apply ''first'', Apply ''second'', DeleteNonPersistentByCID],
              TotalActions = 0\<rparr>)
   \<and> executeScrapingRulesInRuleset criticalThenFine twoRules start
     = Some (('''', Some (''executing scraping rule: Critical: page structure changed''
                          @ [CHR 0x0A])),
             \<lparr>history = [SetEnv, Apply ''first''], TotalActions = 0\<rparr>)"
  by (simp add: executeScrapingRulesInRuleGroup_def executeScrapingRulesInRuleset_def
      executeScrapingRule_def shouldExecuteScrapingRule_def addScrapedDataToDocument_def
      record_request_def TrimSpace_ascii)

text \<open>
  The language guard of scraping rules: when the conditions of a rule name a language and
  \<open>checkScrapingConditions\<close> lets the rule proceed, the browser reported that language for
  the page.
\<close>

lemma elementCondition_history:
  "elementCondition wd conditions (b, st) = Some (b', st') \<Longrightarrow> (b' \<longrightarrow> b)"
  by (auto simp: elementCondition_def FindElementBy_def
      split: option.splits anyval.splits prod.splits if_splits)

lemma languageCondition_True:
  assumes "languageCondition wd conditions (b, st) = Some (True, st')"
      and "map_of conditions ''language'' = Some wanted"
  shows "on_ExecuteScript wd (history st) ''return document.documentElement.lang'' = Inr wanted"
  using assms
  by (auto simp: languageCondition_def ExecuteScriptIn_def split: sum.splits if_splits)

theorem checkScrapingConditions_language:
  assumes "checkScrapingConditions wd conditions st = Some (True, st')"
      and "map_of conditions ''language'' = Some wanted"
  shows "\<exists>h. on_ExecuteScript wd h ''return document.documentElement.lang'' = Inr wanted"
proof -
  from assms(2) have ne: "length conditions > 0" by (cases conditions) auto
  from assms(1) ne obtain b1 st1 where
    "elementCondition wd conditions (True, st) = Some (b1, st1)"
    "languageCondition wd conditions (b1, st1) = Some (True, st')"
    by (auto simp: checkScrapingConditions_def split: option.splits)
  from languageCondition_True[OF this(2) assms(2)] show ?thesis by blast
qed

theorem checkScrapingConditions_language_witness:
  "checkScrapingConditions
     (frenchPage\<lparr>on_ExecuteScript := (\<lambda>h code. Inr (Str ''en''))\<rparr>)
     (sr_Conditions englishOnlyScrape) start
     = Some (True, \<lparr>history = [ExecuteScript ''return document.documentElement.lang''],
                    TotalActions = 0\<rparr>)
   \<and> map_of (sr_Conditions englishOnlyScrape) ''language'' = Some (Str ''en'')
   \<and> (\<exists>h. on_ExecuteScript (frenchPage\<lparr>on_ExecuteScript := (\<lambda>h code. Inr (Str ''en''))\<rparr>) h
          ''return document.documentElement.lang'' = Inr (Str ''en''))"
proof -
  let ?wd = "frenchPage\<lparr>on_ExecuteScript := (\<lambda>h code. Inr (Str ''en''))\<rparr>"
  have run: "checkScrapingConditions ?wd (sr_Conditions englishOnlyScrape) start
     = Some (True, \<lparr>history = [ExecuteScript ''return document.documentElement.lang''],
                    TotalActions = 0\<rparr>)"
    by (simp add: checkScrapingConditions_def elementCondition_def languageCondition_def
        ExecuteScriptIn_def record_request_def)
  have cond: "map_of (sr_Conditions englishOnlyScrape) ''language'' = Some (Str ''en'')"
    by simp
  from checkScrapingConditions_language[OF run cond] run cond show ?thesis by simp
qed

text \<open>
  A ruleset stops at a critical error: when the first rule returns an error that contains
  \<open>Critical\<close>, no later rule is executed and the error is returned with an empty document.
\<close>

theorem ruleset_stops_at_critical:
  assumes "executeScrapingRule wd r (record_request SetEnv st) = Some ((data, Some err), st')"
      and "Contains err ''Critical''"
  shows "executeScrapingRulesInRuleset wd (r # rest) st = Some (('''', Some err), st')"
  using assms by (simp add: executeScrapingRulesInRuleset_def)

theorem ruleset_stops_at_critical_witness:
  "executeScrapingRule criticalThenFine (hd twoRules) (record_request SetEnv start)
     = Some (('''', Some (''executing scraping rule: Critical: page structure changed''
                          @ [CHR 0x0A])),
             \<lparr>history = [SetEnv, Apply ''first''], TotalActions = 0\<rparr>)
   \<and> Contains (''executing scraping rule: Critical: page structure changed'' @ [CHR 0x0A])
        ''Critical''
   \<and> executeScrapingRulesInRuleset criticalThenFine (hd twoRules # tl twoRules) start
     = Some (('''', Some (''executing scraping rule: Critical: page structure changed''
                          @ [CHR 0x0A])),
             \<lparr>history = [SetEnv, Apply ''first''], TotalActions = 0\<rparr>)"
proof -
  have run: "executeScrapingRule criticalThenFine (hd twoRules) (record_request SetEnv start)
     = Some (('''', Some (''executing scraping rule: Critical: page structure changed''
                          @ [CHR 0x0A])),
             \<lparr>history = [SetEnv, Apply ''first''], TotalActions = 0\<rparr>)"
    by (simp add: executeScrapingRule_def shouldExecuteScrapingRule_def record_request_def
        TrimSpace_ascii)
  have crit: "Contains (''executing scraping rule: Critical: page structure changed''
                        @ [CHR 0x0A]) ''Critical''"
    by simp
  from ruleset_stops_at_critical[OF run crit, of "tl twoRules"] run crit
  show ?thesis by simp
qed

section \<open>Results about runes and \<open>strLeft\<close>\<close>

lemma DecodeRune_valid: "validRune (fst (DecodeRune bs))"
proof (cases bs)
  case Nil
  then show ?thesis by (simp add: validRune_def RuneError_def)
next
  case (Cons s0 rest)
  show ?thesis
    unfolding Cons
    by (auto simp: validRune_def RuneError_def acceptLo_def acceptHi_def continuation_def
        split: list.splits if_splits)
qed

lemma combine3: "q = a * 64 + b \<Longrightarrow> r = q * 64 + c \<Longrightarrow> r = a * 4096 + b * 64 + (c::nat)"
  by simp

lemma combine4:
  "p = a * 64 + b \<Longrightarrow> q = p * 64 + c \<Longrightarrow> r = q * 64 + d
     \<Longrightarrow> r = a * 262144 + b * 4096 + c * 64 + (d::nat)"
  by simp

lemma split3:
  fixes r :: nat
  shows "r = (r div 4096) * 4096 + ((r div 64) mod 64) * 64 + r mod 64"
proof -
  have a: "r div 4096 = r div 64 div 64" by (simp add: div_mult2_eq)
  have 1: "r div 64 = (r div 64 div 64) * 64 + (r div 64) mod 64"
    by (rule div_mult_mod_eq[symmetric])
  have 2: "r = (r div 64) * 64 + r mod 64"
    by (rule div_mult_mod_eq[symmetric])
  show ?thesis unfolding a by (rule combine3[OF 1 2])
qed

lemma split4:
  fixes r :: nat
  shows "r = (r div 262144) * 262144 + ((r div 4096) mod 64) * 4096
             + ((r div 64) mod 64) * 64 + r mod 64"
proof -
  have a: "r div 262144 = r div 64 div 64 div 64" "r div 4096 = r div 64 div 64"
    by (simp_all add: div_mult2_eq)
  have 1: "r div 64 div 64 = (r div 64 div 64 div 64) * 64 + (r div 64 div 64) mod 64"
    by (rule div_mult_mod_eq[symmetric])
  have 2: "r div 64 = (r div 64 div 64) * 64 + (r div 64) mod 64"
    by (rule div_mult_mod_eq[symmetric])
  have 3: "r = (r div 64) * 64 + r mod 64"
    by (rule div_mult_mod_eq[symmetric])
  show ?thesis unfolding a by (rule combine4[OF 1 2 3])
qed

lemma decodeRunes_valid: "\<forall>r \<in> set (decodeRunes bs). validRune r"
proof (induction bs rule: decodeRunes.induct)
  case 1
  then show ?case by simp
next
  case (2 s0 rest)
  then show ?case using DecodeRune_valid[of "s0 # rest"] by simp
qed

lemma Decode_Encode_1:
  assumes "r \<le> 0x7F"
  shows "DecodeRune (EncodeRune r @ bs) = (r, 1)"
  using assms by (simp add: EncodeRune_def)

lemma Decode_Encode_2:
  assumes "0x7F < r" "r \<le> 0x7FF"
  shows "DecodeRune (EncodeRune r @ bs) = (r, 2)"
proof -
  have d: "2 \<le> r div 64" "r div 64 \<le> 31" "r mod 64 < 64" using assms by simp_all
  have e: "EncodeRune r = [0xC0 + r div 64, 0x80 + r mod 64]"
    using assms by (simp add: EncodeRune_def)
  have "r div 64 * 64 + r mod 64 = r" by simp
  then show ?thesis
    unfolding e using d by (simp add: acceptLo_def acceptHi_def)
qed

lemma Decode_Encode_3:
  assumes "0x7FF < r" "r \<le> 0xFFFF" "validRune r"
  shows "DecodeRune (EncodeRune r @ bs) = (r, 3)"
proof -
  define a where "a = r div 4096"
  define b where "b = (r div 64) mod 64"
  define c where "c = r mod 64"
  have r: "r = a * 4096 + b * 64 + c"
    unfolding a_def b_def c_def by (rule split3)
  have bc: "b < 64" "c < 64"
    unfolding b_def c_def by simp_all
  have a: "a \<le> 15" using assms(2) r by simp
  have lo: "a = 0 \<Longrightarrow> 32 \<le> b" using assms(1) r bc by simp
  have hi: "a = 13 \<Longrightarrow> b \<le> 31" using assms(2,3) r bc by (simp add: validRune_def)
  have e: "EncodeRune r = [0xE0 + a, 0x80 + b, 0x80 + c]"
    using assms by (auto simp: EncodeRune_def validRune_def a_def b_def c_def)
  show ?thesis
    unfolding e using a bc lo hi r
    by (auto simp: acceptLo_def acceptHi_def continuation_def)
qed

lemma Decode_Encode_4:
  assumes "0xFFFF < r" "validRune r"
  shows "DecodeRune (EncodeRune r @ bs) = (r, 4)"
proof -
  define a where "a = r div 262144"
  define b where "b = (r div 4096) mod 64"
  define c where "c = (r div 64) mod 64"
  define d where "d = r mod 64"
  have r: "r = a * 262144 + b * 4096 + c * 64 + d"
    unfolding a_def b_def c_def d_def by (rule split4)
  have bc: "b < 64" "c < 64" "d < 64"
    unfolding b_def c_def d_def by simp_all
  have le: "r \<le> 0x10FFFF" using assms by (simp add: validRune_def)
  have a: "a \<le> 4" using le r by simp
  have lo: "a = 0 \<Longrightarrow> 16 \<le> b" using assms(1) r bc by simp
  have hi: "a = 4 \<Longrightarrow> b \<le> 15" using le r bc by simp
  have e: "EncodeRune r = [0xF0 + a, 0x80 + b, 0x80 + c, 0x80 + d]"
    using assms le by (simp add: EncodeRune_def validRune_def a_def b_def c_def d_def)
  show ?thesis
    unfolding e using a bc lo hi r
    by (auto simp: acceptLo_def acceptHi_def continuation_def)
qed

lemma length_EncodeRune:
  "validRune r \<Longrightarrow> length (EncodeRune r)
     = (if r \<le> 0x7F then 1 else if r \<le> 0x7FF then 2 else if r \<le> 0xFFFF then 3 else 4)"
  by (auto simp: EncodeRune_def validRune_def)

lemma Decode_Encode:
  assumes "validRune r"
  shows "DecodeRune (EncodeRune r @ bs) = (r, length (EncodeRune r))"
proof -
  consider "r \<le> 0x7F" | "0x7F < r" "r \<le> 0x7FF" | "0x7FF < r" "r \<le> 0xFFFF" | "0xFFFF < r"
    by linarith
  then show ?thesis
  proof cases
    case 1 then show ?thesis by (simp add: Decode_Encode_1 length_EncodeRune[OF assms])
  next
    case 2 then show ?thesis by (simp add: Decode_Encode_2 length_EncodeRune[OF assms])
  next
    case 3 then show ?thesis
      using Decode_Encode_3[OF 3 assms] by (simp add: length_EncodeRune[OF assms])
  next
    case 4 then show ?thesis
      using Decode_Encode_4[OF 4 assms] by (simp add: length_EncodeRune[OF assms])
  qed
qed

lemma EncodeRune_nonempty: "EncodeRune r \<noteq> []"
  by (simp add: EncodeRune_def)

lemma decodeRunes_unfold:
  "bs \<noteq> [] \<Longrightarrow>
     decodeRunes bs = fst (DecodeRune bs) # decodeRunes (drop (snd (DecodeRune bs)) bs)"
  by (cases bs) simp_all

lemma decodeRunes_encode:
  "\<forall>r \<in> set rs. validRune r \<Longrightarrow> decodeRunes (concat (map EncodeRune rs)) = rs"
proof (induction rs)
  case Nil
  then show ?case by simp
next
  case (Cons r rs)
  then have v: "validRune r" by simp
  have "decodeRunes (EncodeRune r @ concat (map EncodeRune rs))
          = r # decodeRunes (concat (map EncodeRune rs))"
    using decodeRunes_unfold[of "EncodeRune r @ concat (map EncodeRune rs)"]
      EncodeRune_nonempty[of r] Decode_Encode[OF v]
    by simp
  with Cons show ?case by simp
qed

lemma EncodeRune_bytes: "\<forall>b \<in> set (EncodeRune r). b < 256"
proof -
  have "r div 64 \<le> 31" if "r \<le> 0x7FF" using that by simp
  moreover have "r div 4096 \<le> 15" if "r \<le> 0xFFFF" using that by simp
  moreover have "r div 262144 \<le> 4" if "r \<le> 0x10FFFF" using that by simp
  moreover have "x mod 64 < 64" for x :: nat by simp
  ultimately show ?thesis
    by (auto simp: EncodeRune_def not_le not_less intro: less_le_trans add_less_le_mono)
qed

lemma of_char_char_of_bytes:
  "\<forall>b \<in> set bs. b < 256 \<Longrightarrow> map of_char (map char_of bs) = (bs :: nat list)"
  by (induction bs) simp_all

lemma runes_of_string_of_runes:
  assumes "\<forall>r \<in> set rs. validRune r"
  shows "runes_of (string_of_runes rs) = rs"
proof -
  have "\<forall>b \<in> set (concat (map EncodeRune rs)). b < 256"
    using EncodeRune_bytes by auto
  then show ?thesis
    by (simp add: runes_of_def string_of_runes_def of_char_char_of_bytes
        decodeRunes_encode[OF assms] del: map_map)
qed

lemma runes_of_valid: "\<forall>r \<in> set (runes_of s). validRune r"
  by (simp add: runes_of_def decodeRunes_valid)

lemma strLeft_runes:
  "runes_of (strLeft s x)
     = (if 0 \<le> x \<and> x \<le> int (length (runes_of s)) then take (nat x) (runes_of s)
        else runes_of s)"
proof -
  have "\<forall>r \<in> set (take (nat x) (runes_of s)). validRune r"
    using runes_of_valid by (auto dest: in_set_takeD)
  then show ?thesis
    by (simp add: strLeft_def Let_def runes_of_string_of_runes)
qed

lemma strLeft_unchanged: "x < 0 \<or> int (length (runes_of s)) < x \<Longrightarrow> strLeft s x = s"
  by (auto simp: strLeft_def Let_def)

lemma strLeft_8: "length (runes_of (strLeft s 8)) \<le> 8"
  by (simp add: strLeft_runes)

text \<open>Encoding the runes of a string and decoding them again gives the same runes.\<close>

theorem runes_roundtrip:
  "runes_of (string_of_runes (runes_of s)) = runes_of s"
  by (rule runes_of_string_of_runes) (rule runes_of_valid)

section \<open>Results about indexing a page\<close>

lemma upsertSearchIndex_committed:
  "upsertSearchIndex now u p (db, tx) = (i, db', tx') \<Longrightarrow>
     committed db' = committed db \<and> Keywords db' = Keywords db"
  by (auto simp: upsertSearchIndex_def Let_def split: list.splits)

lemma insertOrUpdateSearchIndex_committed:
  "insertOrUpdateSearchIndex f now u p (db, tx) = (r, db', tx') \<Longrightarrow>
     committed db' = committed db \<and> Keywords db' = Keywords db"
  by (auto simp: insertOrUpdateSearchIndex_def split: option.splits prod.splits
      dest: upsertSearchIndex_committed)

lemma upsertKeyword_committed:
  "upsertKeyword kw db = (i, db') \<Longrightarrow> committed db' = committed db"
  by (auto simp: upsertKeyword_def Let_def split: list.splits)

lemma keywordRetryLoop_committed:
  "keywordRetryLoop n f k i kw (db, sl) = (r, db', sl') \<Longrightarrow> committed db' = committed db"
proof (induction n f k i kw "(db, sl)" arbitrary: db sl rule: keywordRetryLoop.induct)
  case (1 f k i keyword db sleeps)
  then show ?case by simp
next
  case (2 n f k i keyword db sleeps)
  then show ?case
    by (auto split: option.splits if_splits prod.splits dest: upsertKeyword_committed)
qed

lemma insertKeywordWithRetries_committed:
  "insertKeywordWithRetries f k kw (db, sl) = (r, db', sl') \<Longrightarrow> committed db' = committed db"
  by (auto simp: insertKeywordWithRetries_def split: option.splits
      dest: keywordRetryLoop_committed)

lemma insertKeywordsFrom_committed:
  "insertKeywordsFrom f k ix kws ((db, sl), tx) = (r, (db', sl'), tx') \<Longrightarrow>
     committed db' = committed db"
proof (induction kws arbitrary: k db sl tx)
  case Nil
  then show ?case by simp
next
  case (Cons kw kws)
  obtain r1 db1 sl1 where w: "insertKeywordWithRetries f k kw (db, sl) = (r1, db1, sl1)"
    by (metis prod_cases3)
  have c1: "committed db1 = committed db" by (rule insertKeywordWithRetries_committed[OF w])
  show ?case
  proof (cases r1)
    case (Inl e)
    with Cons.prems w c1 show ?thesis by simp
  next
    case (Inr kid)
    show ?thesis
    proof (cases "at_KeywordIndex f k")
      case None
      with Cons.prems w Inr have
        "insertKeywordsFrom f (Suc k) ix kws
           ((db1, sl1), tx\<lparr>KeywordIndex := KeywordIndex tx @ [(kid, ix)]\<rparr>) = (r, (db', sl'), tx')"
        by simp
      from Cons.IH[OF this] c1 show ?thesis by simp
    next
      case (Some e)
      with Cons.prems w Inr c1 show ?thesis by simp
    qed
  qed
qed

lemma insertKeywords_committed:
  "insertKeywords f ix kws ((db, sl), tx) = (r, (db', sl'), tx') \<Longrightarrow>
     committed db' = committed db"
  unfolding insertKeywords_def by (rule insertKeywordsFrom_committed)

lemma indexPage_not_committed:
  assumes "indexPage f now kws db u p = (out, sleeps, db')" and "out \<noteq> Committed"
  shows "committed db' = committed db"
  using assms
  by (auto simp: indexPage_def split: option.splits sum.splits prod.splits
      dest!: insertOrUpdateSearchIndex_committed insertKeywords_committed)

lemma insertKeywordWithRetries_closed:
  "insertKeywordWithRetries f k kw (db, sl) =
     (case at_KeywordCheckConnection f k of
        Some err \<Rightarrow> (Inl err, db, sl)
      | None \<Rightarrow>
          (let n = lastAttempt f k;
               sl' = sl @ map (\<lambda>i. int i * 100) [0..<n]
           in case at_Keyword f k n of
                Some err \<Rightarrow> (Inl err, db, sl')
              | None \<Rightarrow>
                  (case upsertKeyword kw db of (keywordID, db') \<Rightarrow> (Inr keywordID, db', sl'))))"
proof -
  have three: "maxRetries = Suc (Suc (Suc 0))" by (simp add: maxRetries_def)
  have up: "[0..<2] = [0, Suc 0]" by (simp add: upt_rec)
  show ?thesis
    by (cases "at_KeywordCheckConnection f k"; cases "at_Keyword f k 0";
        cases "at_Keyword f k (Suc 0)"; cases "at_Keyword f k 2")
       (auto simp: insertKeywordWithRetries_def three up lastAttempt_def deadlockAt_def
          Let_def numeral_2_eq_2 split: prod.splits)
qed

lemma insertKeywordWithRetries_Inr:
  "insertKeywordWithRetries f k kw (db, sl) = (Inr i, ds') \<Longrightarrow>
     at_KeywordCheckConnection f k = None \<and> at_Keyword f k (lastAttempt f k) = None"
  unfolding insertKeywordWithRetries_closed
  by (auto simp: Let_def split: option.splits prod.splits)

lemma insertMetaTagsFrom_None:
  "insertMetaTagsFrom f i ix tags tx = (None, tx') \<Longrightarrow>
     \<forall>j<length tags. at_MetaTag f (i + j) = None"
proof (induction tags arbitrary: i tx)
  case Nil
  then show ?case by simp
next
  case (Cons t tags)
  obtain name content where t: "t = (name, content)" by (cases t)
  from Cons.prems have now: "at_MetaTag f i = None"
    and rest: "insertMetaTagsFrom f (Suc i) ix tags
        (tx\<lparr>MetaTagsTable := MetaTagsTable tx @ [(ix, name, content)]\<rparr>) = (None, tx')"
    unfolding t by (auto split: option.splits)
  from Cons.IH[OF rest] have ih: "\<forall>j<length tags. at_MetaTag f (Suc i + j) = None" .
  show ?case
  proof (intro allI impI)
    fix j assume "j < length (t # tags)"
    then show "at_MetaTag f (i + j) = None"
      using now ih by (cases j) auto
  qed
qed

lemma insertKeywordsFrom_None:
  "insertKeywordsFrom f k ix kws ((db, sl), tx) = (None, st') \<Longrightarrow>
     \<forall>j<length kws. at_KeywordIndex f (k + j) = None
                    \<and> at_KeywordCheckConnection f (k + j) = None
                    \<and> at_Keyword f (k + j) (lastAttempt f (k + j)) = None"
proof (induction kws arbitrary: k db sl tx)
  case Nil
  then show ?case by simp
next
  case (Cons kw kws)
  obtain r1 db1 sl1 where w: "insertKeywordWithRetries f k kw (db, sl) = (r1, db1, sl1)"
    by (metis prod_cases3)
  from Cons.prems w obtain kid where r1: "r1 = Inr kid"
    by (cases r1) auto
  have a: "at_KeywordCheckConnection f k = None \<and> at_Keyword f k (lastAttempt f k) = None"
    using insertKeywordWithRetries_Inr w r1 by blast
  from Cons.prems w r1 have b: "at_KeywordIndex f k = None"
    and rest: "insertKeywordsFrom f (Suc k) ix kws
        ((db1, sl1), tx\<lparr>KeywordIndex := KeywordIndex tx @ [(kid, ix)]\<rparr>) = (None, st')"
    by (auto split: option.splits)
  note ih = Cons.IH[OF rest]
  show ?case
  proof (intro allI impI)
    fix j assume "j < length (kw # kws)"
    then show "at_KeywordIndex f (k + j) = None
                 \<and> at_KeywordCheckConnection f (k + j) = None
                 \<and> at_Keyword f (k + j) (lastAttempt f (k + j)) = None"
      using a b ih by (cases j) auto
  qed
qed

lemma indexPage_Committed:
  assumes "indexPage f now kws db u p = (Committed, sleeps, db')"
  shows "at_CheckConnection f = None \<and> at_Begin f = None
       \<and> at_SearchIndex f = None \<and> at_SourceSearchIndex f = None
       \<and> (\<forall>i<length (MetaTags p). at_MetaTag f i = None)
       \<and> (\<forall>k<length kws. at_KeywordIndex f k = None
                           \<and> at_KeywordCheckConnection f k = None
                           \<and> at_Keyword f k (lastAttempt f k) = None)
       \<and> at_Commit f = None"
proof -
  from assms have c: "at_CheckConnection f = None" "at_Begin f = None"
    by (auto simp: indexPage_def split: option.splits)
  obtain r1 db1 tx1 where
    s1: "insertOrUpdateSearchIndex f now u p (db, committed db) = (r1, db1, tx1)"
    by (metis prod_cases3)
  from assms c s1 obtain ix where r1: "r1 = Inr ix"
    by (cases r1) (auto simp: indexPage_def)
  from s1 r1 have si: "at_SearchIndex f = None" "at_SourceSearchIndex f = None"
    by (auto simp: insertOrUpdateSearchIndex_def split: option.splits prod.splits)
  obtain r2 tx2 where s2: "insertMetaTags f ix (MetaTags p) tx1 = (r2, tx2)"
    by (metis surj_pair)
  from assms c s1 r1 s2 have r2: "r2 = None"
    by (cases r2) (auto simp: indexPage_def)
  have mt: "\<forall>i<length (MetaTags p). at_MetaTag f i = None"
    using insertMetaTagsFrom_None[of f 0 ix "MetaTags p" tx1 tx2] s2 r2
    by (simp add: insertMetaTags_def)
  obtain r3 st3 where s3: "insertKeywords f ix kws ((db1, []), tx2) = (r3, st3)"
    by (metis surj_pair)
  from assms c s1 r1 s2 r2 s3 have r3: "r3 = None"
    by (cases r3) (auto simp: indexPage_def split: prod.splits)
  have kw: "\<forall>k<length kws. at_KeywordIndex f k = None
                           \<and> at_KeywordCheckConnection f k = None
                           \<and> at_Keyword f k (lastAttempt f k) = None"
    using insertKeywordsFrom_None[of f 0 ix kws db1 "[]" tx2 st3] s3 r3
    by (simp add: insertKeywords_def)
  from assms c s1 r1 s2 r2 s3 r3 have cm: "at_Commit f = None"
    by (auto simp: indexPage_def split: prod.splits option.splits)
  from c si mt kw cm show ?thesis by (intro conjI)
qed

text \<open>
  C2, as the code has it. Whatever fails, a call of \<open>indexPage\<close> that does not commit leaves
  \<open>SearchIndex\<close>, \<open>SourceSearchIndex\<close>, \<open>MetaTags\<close> and \<open>KeywordIndex\<close> as they were, and
  a call in which the page upsert, the link, a meta tag, a keyword upsert, a posting or the
  commit fails does not commit. A keyword upsert is attempted at most three times: attempt
  \<open>i\<close> (from 0) is followed by a pause of \<open>100 \<cdot> i\<close> milliseconds and another attempt when it
  ends in a deadlock and \<open>i < 2\<close>; any other error, and a deadlock on the third attempt, is
  returned at once. The keyword upserts themselves run outside the transaction.
\<close>

theorem indexPage_transaction:
  assumes "indexPage f now keywords db u pageInfo = (out, sleeps, db')"
  shows "(out \<noteq> Committed \<longrightarrow> committed db' = committed db)
       \<and> (at_CheckConnection f \<noteq> None \<or> at_Begin f \<noteq> None
            \<or> at_SearchIndex f \<noteq> None \<or> at_SourceSearchIndex f \<noteq> None
            \<or> (\<exists>i<length (MetaTags pageInfo). at_MetaTag f i \<noteq> None)
            \<or> (\<exists>k<length keywords. at_KeywordIndex f k \<noteq> None
                                   \<or> at_KeywordCheckConnection f k \<noteq> None
                                   \<or> at_Keyword f k (lastAttempt f k) \<noteq> None)
            \<or> at_Commit f \<noteq> None
           \<longrightarrow> out \<noteq> Committed)
       \<and> lastAttempt f k < maxRetries
       \<and> insertKeywordWithRetries f k keyword (db0, sleeps0) =
           (case at_KeywordCheckConnection f k of
              Some err \<Rightarrow> (Inl err, db0, sleeps0)
            | None \<Rightarrow>
                (let n = lastAttempt f k;
                     sleeps1 = sleeps0 @ map (\<lambda>i. int i * 100) [0..<n]
                 in case at_Keyword f k n of
                      Some err \<Rightarrow> (Inl err, db0, sleeps1)
                    | None \<Rightarrow>
                        (case upsertKeyword keyword db0 of
                           (keywordID, db1) \<Rightarrow> (Inr keywordID, db1, sleeps1))))"
proof -
  have 1: "out \<noteq> Committed \<longrightarrow> committed db' = committed db"
    using indexPage_not_committed[OF assms] by blast
  have 2: "at_CheckConnection f \<noteq> None \<or> at_Begin f \<noteq> None
            \<or> at_SearchIndex f \<noteq> None \<or> at_SourceSearchIndex f \<noteq> None
            \<or> (\<exists>i<length (MetaTags pageInfo). at_MetaTag f i \<noteq> None)
            \<or> (\<exists>k<length keywords. at_KeywordIndex f k \<noteq> None
                                   \<or> at_KeywordCheckConnection f k \<noteq> None
                                   \<or> at_Keyword f k (lastAttempt f k) \<noteq> None)
            \<or> at_Commit f \<noteq> None
           \<longrightarrow> out \<noteq> Committed"
  proof (intro impI notI)
    assume bad: "at_CheckConnection f \<noteq> None \<or> at_Begin f \<noteq> None
            \<or> at_SearchIndex f \<noteq> None \<or> at_SourceSearchIndex f \<noteq> None
            \<or> (\<exists>i<length (MetaTags pageInfo). at_MetaTag f i \<noteq> None)
            \<or> (\<exists>k<length keywords. at_KeywordIndex f k \<noteq> None
                                   \<or> at_KeywordCheckConnection f k \<noteq> None
                                   \<or> at_Keyword f k (lastAttempt f k) \<noteq> None)
            \<or> at_Commit f \<noteq> None"
    assume "out = Committed"
    with assms have "indexPage f now keywords db u pageInfo = (Committed, sleeps, db')"
      by simp
    from indexPage_Committed[OF this]
    have ok: "at_CheckConnection f = None" "at_Begin f = None"
      "at_SearchIndex f = None" "at_SourceSearchIndex f = None"
      "\<forall>i<length (MetaTags pageInfo). at_MetaTag f i = None"
      "\<forall>k<length keywords. at_KeywordIndex f k = None
                               \<and> at_KeywordCheckConnection f k = None
                               \<and> at_Keyword f k (lastAttempt f k) = None"
      "at_Commit f = None"
      by simp_all
    from bad ok show False by auto
  qed
  have 3: "lastAttempt f k < maxRetries"
    by (simp add: lastAttempt_def maxRetries_def)
  note 4 = insertKeywordWithRetries_closed[of f k keyword db0 sleeps0]
  show ?thesis
    apply (intro conjI)
       apply (rule 1)
      apply (rule 2)
     apply (rule 3)
    apply (rule 4)
    done
qed

lemmas index_defs =
  indexPage_def insertOrUpdateSearchIndex_def upsertSearchIndex_def
  insertSourceSearchIndex_def insertMetaTags_def insertKeywords_def
  insertKeywordWithRetries_def upsertKeyword_def maxRetries_def

text \<open>
  Two keywords, the second upserted after two deadlocks and its posting refused: the pauses
  are 0 and 100 milliseconds, the transaction is rolled back, and the four tables of the
  transaction are as before.
\<close>

theorem indexPage_transaction_witness:
  "indexPage deadlockTwice 1000 [''hello'', ''world''] helloDatabase ''http://a.test/'' helloPage
     = (RolledBack ''connection reset'', [0, 100],
        helloDatabase\<lparr>Keywords := [(7, ''hello''), (9, ''world'')],
                       searchindex_index_id_seq := 1, keywords_keyword_id_seq := 9\<rparr>)
   \<and> RolledBack ''connection reset'' \<noteq> Committed
   \<and> committed (helloDatabase\<lparr>Keywords := [(7, ''hello''), (9, ''world'')],
                       searchindex_index_id_seq := 1, keywords_keyword_id_seq := 9\<rparr>)
       = committed helloDatabase
   \<and> lastAttempt deadlockTwice 1 = 2"
proof -
  have run: "indexPage deadlockTwice 1000 [''hello'', ''world''] helloDatabase
               ''http://a.test/'' helloPage
     = (RolledBack ''connection reset'', [0, 100],
        helloDatabase\<lparr>Keywords := [(7, ''hello''), (9, ''world'')],
                       searchindex_index_id_seq := 1, keywords_keyword_id_seq := 9\<rparr>)"
    by (simp add: index_defs eval_nat_numeral)
  have last: "lastAttempt deadlockTwice 1 = 2"
    by (simp add: lastAttempt_def deadlockAt_def)
  from indexPage_transaction[OF run, of 1 "''world''" helloDatabase "[]"]
  have "committed (helloDatabase\<lparr>Keywords := [(7, ''hello''), (9, ''world'')],
                       searchindex_index_id_seq := 1, keywords_keyword_id_seq := 9\<rparr>)
       = committed helloDatabase"
    by simp
  with run last show ?thesis by simp
qed

text \<open>
  C2 as stated fails: when the posting of a keyword is refused the transaction is rolled
  back, but the keyword upserted just before stays in \<open>Keywords\<close>.
\<close>

theorem indexPage_keywords_counterexample:
  "indexPage (noFaults\<lparr>at_KeywordIndex := (\<lambda>k. Some ''connection reset'')\<rparr>) 1000
       [''hello''] emptyDatabase ''http://a.test/'' helloPage
     = (RolledBack ''connection reset'', [],
        emptyDatabase\<lparr>Keywords := [(1, ''hello'')], searchindex_index_id_seq := 1,
                       keywords_keyword_id_seq := 1\<rparr>)"
  by (simp add: index_defs eval_nat_numeral)

lemma filter_other_urls:
  assumes "\<And>row. si_page_url (g row) = si_page_url row"
  shows "filter (\<lambda>row. si_page_url row \<noteq> u)
           (map (\<lambda>row. if si_page_url row = u then g row else row) xs)
         = filter (\<lambda>row. si_page_url row \<noteq> u) xs"
  using assms by (induction xs) auto

text \<open>
  C10. \<open>strLeft s x\<close> holds the first \<open>x\<close> runes of \<open>s\<close> when \<open>0 \<le> x \<le>\<close> the number of
  runes of \<open>s\<close>, and is \<open>s\<close> itself otherwise; so \<open>strLeft s 8\<close> has at most 8 runes. Every
  row that \<open>insertOrUpdateSearchIndex\<close> writes (the rows of the page's URL, of which there
  is one) holds \<open>strLeft\<close> of the detected language and type, and the other rows stay as
  they were.
\<close>

theorem strLeft_truncates:
  "runes_of (strLeft s x)
     = (if 0 \<le> x \<and> x \<le> int (length (runes_of s)) then take (nat x) (runes_of s)
        else runes_of s)
   \<and> (x < 0 \<or> int (length (runes_of s)) < x \<longrightarrow> strLeft s x = s)
   \<and> length (runes_of (strLeft s 8)) \<le> 8
   \<and> (insertOrUpdateSearchIndex f now u pageInfo (db, tx) = (Inr indexID, db', tx') \<longrightarrow>
        (\<forall>row \<in> set (SearchIndex tx'). si_page_url row = u \<longrightarrow>
            si_detected_lang row = strLeft (DetectedLang pageInfo) 8
          \<and> si_detected_type row = strLeft (DetectedType pageInfo) 8
          \<and> length (runes_of (si_detected_lang row)) \<le> 8
          \<and> length (runes_of (si_detected_type row)) \<le> 8)
        \<and> (\<exists>row \<in> set (SearchIndex tx'). si_page_url row = u \<and> si_index_id row = indexID)
        \<and> filter (\<lambda>row. si_page_url row \<noteq> u) (SearchIndex tx')
            = filter (\<lambda>row. si_page_url row \<noteq> u) (SearchIndex tx))"
proof -
  have 4: "insertOrUpdateSearchIndex f now u pageInfo (db, tx) = (Inr indexID, db', tx') \<longrightarrow>
        (\<forall>row \<in> set (SearchIndex tx'). si_page_url row = u \<longrightarrow>
            si_detected_lang row = strLeft (DetectedLang pageInfo) 8
          \<and> si_detected_type row = strLeft (DetectedType pageInfo) 8
          \<and> length (runes_of (si_detected_lang row)) \<le> 8
          \<and> length (runes_of (si_detected_type row)) \<le> 8)
        \<and> (\<exists>row \<in> set (SearchIndex tx'). si_page_url row = u \<and> si_index_id row = indexID)
        \<and> filter (\<lambda>row. si_page_url row \<noteq> u) (SearchIndex tx')
            = filter (\<lambda>row. si_page_url row \<noteq> u) (SearchIndex tx)"
  proof
    assume a: "insertOrUpdateSearchIndex f now u pageInfo (db, tx) = (Inr indexID, db', tx')"
    obtain db1 tx1 where up: "upsertSearchIndex now u pageInfo (db, tx) = (indexID, db1, tx1)"
      and tx': "SearchIndex tx' = SearchIndex tx1"
      using a
      by (auto simp: insertOrUpdateSearchIndex_def insertSourceSearchIndex_def
          split: option.splits prod.splits if_splits)
    show "(\<forall>row \<in> set (SearchIndex tx'). si_page_url row = u \<longrightarrow>
            si_detected_lang row = strLeft (DetectedLang pageInfo) 8
          \<and> si_detected_type row = strLeft (DetectedType pageInfo) 8
          \<and> length (runes_of (si_detected_lang row)) \<le> 8
          \<and> length (runes_of (si_detected_type row)) \<le> 8)
        \<and> (\<exists>row \<in> set (SearchIndex tx'). si_page_url row = u \<and> si_index_id row = indexID)
        \<and> filter (\<lambda>row. si_page_url row \<noteq> u) (SearchIndex tx')
            = filter (\<lambda>row. si_page_url row \<noteq> u) (SearchIndex tx)"
    proof (cases "filter (\<lambda>row. si_page_url row = u) (SearchIndex tx)")
      case Nil
      then have none: "\<forall>row \<in> set (SearchIndex tx). si_page_url row \<noteq> u"
        by (simp add: filter_empty_conv)
      from up Nil have "SearchIndex tx1 = SearchIndex tx @
                     [\<lparr>si_index_id = indexID, si_last_updated_at = now, si_page_url = u,
                       si_title = Title pageInfo, si_summary = Summary pageInfo,
                       si_snapshot_url = None,
                       si_detected_type = strLeft (DetectedType pageInfo) 8,
                       si_detected_lang = strLeft (DetectedLang pageInfo) 8,
                       si_content = BodyText pageInfo\<rparr>]"
        by (auto simp: upsertSearchIndex_def Let_def)
      then have tx1: "SearchIndex tx' = SearchIndex tx @
                     [\<lparr>si_index_id = indexID, si_last_updated_at = now, si_page_url = u,
                       si_title = Title pageInfo, si_summary = Summary pageInfo,
                       si_snapshot_url = None,
                       si_detected_type = strLeft (DetectedType pageInfo) 8,
                       si_detected_lang = strLeft (DetectedLang pageInfo) 8,
                       si_content = BodyText pageInfo\<rparr>]"
        unfolding tx' .
      have f: "filter (\<lambda>row. si_page_url row \<noteq> u) (SearchIndex tx) = SearchIndex tx"
        using none by (simp add: filter_id_conv)
      have a: "\<forall>row \<in> set (SearchIndex tx'). si_page_url row = u \<longrightarrow>
            si_detected_lang row = strLeft (DetectedLang pageInfo) 8
          \<and> si_detected_type row = strLeft (DetectedType pageInfo) 8
          \<and> length (runes_of (si_detected_lang row)) \<le> 8
          \<and> length (runes_of (si_detected_type row)) \<le> 8"
      proof (intro ballI impI)
        fix row assume r: "row \<in> set (SearchIndex tx')" and ru: "si_page_url row = u"
        from r ru none have row: "row = \<lparr>si_index_id = indexID, si_last_updated_at = now,
                       si_page_url = u,
                       si_title = Title pageInfo, si_summary = Summary pageInfo,
                       si_snapshot_url = None,
                       si_detected_type = strLeft (DetectedType pageInfo) 8,
                       si_detected_lang = strLeft (DetectedLang pageInfo) 8,
                       si_content = BodyText pageInfo\<rparr>"
          unfolding tx1 by auto
        show "si_detected_lang row = strLeft (DetectedLang pageInfo) 8
          \<and> si_detected_type row = strLeft (DetectedType pageInfo) 8
          \<and> length (runes_of (si_detected_lang row)) \<le> 8
          \<and> length (runes_of (si_detected_type row)) \<le> 8"
          unfolding row by (simp add: strLeft_8)
      qed
      have e: "\<exists>row \<in> set (SearchIndex tx'). si_page_url row = u \<and> si_index_id row = indexID"
        unfolding tx1 by simp
      have g: "filter (\<lambda>row. si_page_url row \<noteq> u) (SearchIndex tx')
            = filter (\<lambda>row. si_page_url row \<noteq> u) (SearchIndex tx)"
        unfolding tx1 by simp
      from a e g show ?thesis by (intro conjI)
    next
      case (Cons old others)
      then have "old \<in> set (filter (\<lambda>row. si_page_url row = u) (SearchIndex tx))"
        by simp
      then have old: "old \<in> set (SearchIndex tx)" "si_page_url old = u"
        by simp_all
      from up Cons have id: "indexID = si_index_id old"
        and m: "SearchIndex tx1 = map (\<lambda>row. if si_page_url row = u
            then row\<lparr>si_title := Title pageInfo, si_summary := Summary pageInfo,
                     si_content := BodyText pageInfo,
                     si_detected_lang := strLeft (DetectedLang pageInfo) 8,
                     si_detected_type := strLeft (DetectedType pageInfo) 8,
                     si_last_updated_at := now\<rparr>
            else row) (SearchIndex tx)"
        by (auto simp: upsertSearchIndex_def Let_def)
      have f: "filter (\<lambda>row. si_page_url row \<noteq> u) (SearchIndex tx1)
            = filter (\<lambda>row. si_page_url row \<noteq> u) (SearchIndex tx)"
        unfolding m by (rule filter_other_urls) simp
      let ?w = "\<lambda>row. if si_page_url row = u
            then row\<lparr>si_title := Title pageInfo, si_summary := Summary pageInfo,
                     si_content := BodyText pageInfo,
                     si_detected_lang := strLeft (DetectedLang pageInfo) 8,
                     si_detected_type := strLeft (DetectedType pageInfo) 8,
                     si_last_updated_at := now\<rparr>
            else row"
      have "?w old \<in> ?w ` set (SearchIndex tx)"
        using old(1) by (rule imageI)
      then have "?w old \<in> set (map ?w (SearchIndex tx))"
        by (simp only: set_map)
      then have w: "?w old \<in> set (SearchIndex tx1)" unfolding m .
      have wu: "si_page_url (?w old) = u" using old(2) by simp
      have wi: "si_index_id (?w old) = indexID" using old(2) id by simp
      have e: "\<exists>row \<in> set (SearchIndex tx1).
          si_page_url row = u \<and> si_index_id row = indexID"
        by (rule bexI[of _ "?w old"]) (intro conjI wu wi, rule w)
      have a: "\<forall>row \<in> set (SearchIndex tx1). si_page_url row = u \<longrightarrow>
            si_detected_lang row = strLeft (DetectedLang pageInfo) 8
          \<and> si_detected_type row = strLeft (DetectedType pageInfo) 8
          \<and> length (runes_of (si_detected_lang row)) \<le> 8
          \<and> length (runes_of (si_detected_type row)) \<le> 8"
      proof (intro ballI impI)
        fix row assume r: "row \<in> set (SearchIndex tx1)" and ru: "si_page_url row = u"
        from r obtain r0 where r0: "r0 \<in> set (SearchIndex tx)" "row = ?w r0"
          unfolding m by (auto simp only: set_map)
        have "si_page_url r0 = u"
        proof (rule ccontr)
          assume "si_page_url r0 \<noteq> u"
          with r0(2) ru show False by simp
        qed
        with r0(2) have row: "row = r0\<lparr>si_title := Title pageInfo, si_summary := Summary pageInfo,
                     si_content := BodyText pageInfo,
                     si_detected_lang := strLeft (DetectedLang pageInfo) 8,
                     si_detected_type := strLeft (DetectedType pageInfo) 8,
                     si_last_updated_at := now\<rparr>"
          by simp
        show "si_detected_lang row = strLeft (DetectedLang pageInfo) 8
          \<and> si_detected_type row = strLeft (DetectedType pageInfo) 8
          \<and> length (runes_of (si_detected_lang row)) \<le> 8
          \<and> length (runes_of (si_detected_type row)) \<le> 8"
          unfolding row by (simp add: strLeft_8)
      qed
      from a e f show ?thesis unfolding tx' by (intro conjI)
    qed
  qed
  note 1 = strLeft_runes[of s x]
  have 2: "x < 0 \<or> int (length (runes_of s)) < x \<longrightarrow> strLeft s x = s"
    using strLeft_unchanged by blast
  note 3 = strLeft_8[of s]
  show ?thesis
    apply (intro conjI)
       apply (rule 1)
      apply (rule 2)
     apply (rule 3)
    apply (rule 4)
    done
qed

text \<open>
  A page with a language tag of 15 characters and the type \<open>text/html\<close>; three times the
  two-byte letter U+00E9 cut to two runes; and a short tag, which is kept.
\<close>

theorem strLeft_truncates_witness:
  "insertOrUpdateSearchIndex noFaults 1000 ''http://a.test/'' frenchHtmlPage
       (emptyDatabase, committed emptyDatabase)
     = (Inr 1, emptyDatabase\<lparr>searchindex_index_id_seq := 1\<rparr>,
        \<lparr>SearchIndex =
           [\<lparr>si_index_id = 1, si_last_updated_at = 1000, si_page_url = ''http://a.test/'',
             si_title = ''Bonjour'', si_summary = '''', si_snapshot_url = None,
             si_detected_type = ''text/htm'', si_detected_lang = ''fr-FR-x-'',
             si_content = ''bonjour''\<rparr>],
         SourceSearchIndex = [(1, 1)], MetaTagsTable = [], KeywordIndex = []\<rparr>)
   \<and> runes_of (strLeft [CHR 0xC3, CHR 0xA9, CHR 0xC3, CHR 0xA9, CHR 0xC3, CHR 0xA9] 2)
       = [0xE9, 0xE9]
   \<and> int (length (runes_of ''fr'')) < 8
   \<and> strLeft ''fr'' 8 = ''fr''"
proof -
  have run: "insertOrUpdateSearchIndex noFaults 1000 ''http://a.test/'' frenchHtmlPage
       (emptyDatabase, committed emptyDatabase)
     = (Inr 1, emptyDatabase\<lparr>searchindex_index_id_seq := 1\<rparr>,
        \<lparr>SearchIndex =
           [\<lparr>si_index_id = 1, si_last_updated_at = 1000, si_page_url = ''http://a.test/'',
             si_title = ''Bonjour'', si_summary = '''', si_snapshot_url = None,
             si_detected_type = strLeft ''text/html'' 8,
             si_detected_lang = strLeft ''fr-FR-x-variant'' 8,
             si_content = ''bonjour''\<rparr>],
         SourceSearchIndex = [(1, 1)], MetaTagsTable = [], KeywordIndex = []\<rparr>)"
    by (simp add: insertOrUpdateSearchIndex_def upsertSearchIndex_def
        insertSourceSearchIndex_def)
  have cut: "strLeft ''text/html'' 8 = ''text/htm''" "strLeft ''fr-FR-x-variant'' 8 = ''fr-FR-x-''"
    by code_simp+
  have len: "int (length (runes_of ''fr'')) < 8" by code_simp
  have two: "take (nat 2) (runes_of [CHR 0xC3, CHR 0xA9, CHR 0xC3, CHR 0xA9, CHR 0xC3, CHR 0xA9])
       = [0xE9, 0xE9]"
    by code_simp
  have small: "(0::int) \<le> 2 \<and> 2 \<le> int (length
      (runes_of [CHR 0xC3, CHR 0xA9, CHR 0xC3, CHR 0xA9, CHR 0xC3, CHR 0xA9]))"
    by code_simp
  note t = strLeft_truncates[of "[CHR 0xC3, CHR 0xA9, CHR 0xC3, CHR 0xA9, CHR 0xC3, CHR 0xA9]" 2
      noFaults 1000 "''http://a.test/''" frenchHtmlPage emptyDatabase "committed emptyDatabase"]
  note t' = strLeft_truncates[of "''fr''" 8]
  have a: "runes_of (strLeft [CHR 0xC3, CHR 0xA9, CHR 0xC3, CHR 0xA9, CHR 0xC3, CHR 0xA9] 2)
       = [0xE9, 0xE9]"
    using t small two by simp
  have b: "strLeft ''fr'' 8 = ''fr''"
    using t' len by blast
  note run' = run[unfolded cut]
  show ?thesis
    apply (intro conjI)
       apply (rule run')
      apply (rule a)
     apply (rule len)
    apply (rule b)
    done
qed

section \<open>Results about extracting links\<close>

lemma extractLinks_set:
  "set (extractLinks lib htmlContent)
     = {link. link \<in> TrimSpace ` set (a_hrefs lib htmlContent) \<and> link \<noteq> ''''
              \<and> IsValidURL lib link}"
  by (auto simp: extractLinks_def)

text \<open>
  C3. For the seed page the links are the trimmed, non-empty, valid \<open>href\<close> values of the
  page source. For a page crawled by a worker they are taken from the text of the body
  instead: the page with the link \<open>http://a.test/next\<close> yields no link at all. Relative
  links are not resolved in either case: the seed page with the link \<open>/about\<close> yields
  \<open>/about\<close>, and that is the URL the worker passes on, although \<open>combineURLs\<close> gives
  \<open>http://a.test/about\<close> for it.
\<close>

theorem processJob_links_from_body_text:
  "initialLinks twoPages pageWithLink = [''http://a.test/next'']
   \<and> processJob_extractedLinks twoPages pageWithLink = []
   \<and> initialLinks twoPages pageWithRelativeLink = [''/about'']
   \<and> worker_jobs parseATest ''http://a.test/'' 2 [''/about''] = [''/about'']
   \<and> combineURLs parseATest ''http://a.test/'' ''/about'' = Inr ''http://a.test/about''"
  by (simp add: initialLinks_def processJob_extractedLinks_def extractLinks_def
      IsValidURL_def worker_jobs_def skipURL_def combineURLs_def isExternalLink_def
      getDomainParts_def TrimSpace_ascii)

end
